theory Spec2Isabelle
  imports Complex_Main "HOL-Library.Word"
begin

unbundle bit_operations_syntax

section \<open>C integer types and run-time errors\<close>

text \<open>
  The sources are C for Linux on an LP64 target (\<^verbatim>\<open>nvtop.c\<close> prints the
  \<^verbatim>\<open>unsigned long long\<close> memory fields with \<^verbatim>\<open>%lu\<close>): \<^verbatim>\<open>unsigned\<close> is
  32 bits wide, \<^verbatim>\<open>unsigned long\<close>, \<^verbatim>\<open>unsigned long long\<close> and \<^verbatim>\<open>uint64_t\<close>
  are 64 bits wide. Unsigned arithmetic wraps around, which is what \<open>+\<close>, \<open>-\<close> and
  \<open>*\<close> on words do.
\<close>

type_synonym uint32 = "32 word"
type_synonym uint64 = "64 word"

text \<open>
  The two ways in which the modelled functions can stop without returning: a failed
  \<^verbatim>\<open>assert\<close> (which aborts) and an integer division by zero.
\<close>

datatype error = Assertion_failed | Division_by_zero

text \<open>C's \<^verbatim>\<open>/\<close> on 64-bit unsigned operands: truncating, undefined for a zero divisor.\<close>

definition udiv64 :: "uint64 \<Rightarrow> uint64 \<Rightarrow> error + uint64" where
  "udiv64 a b = (if b = 0 then Inl Division_by_zero else Inr (a div b))"

section \<open>The C library's \<^verbatim>\<open>strtoul\<close> and \<^verbatim>\<open>strtoull\<close>, base 10\<close>

text \<open>
  A C string is the characters before the terminating NUL, here a \<open>string\<close>.
  \<^verbatim>\<open>strtoull(s, &end, 10)\<close> skips white space, reads an optional sign and then
  decimal digits. Without any digit the value is 0 and \<^verbatim>\<open>end\<close> is \<^verbatim>\<open>s\<close> itself.
  A magnitude beyond \<^verbatim>\<open>ULLONG_MAX\<close> gives \<^verbatim>\<open>ULLONG_MAX\<close>; otherwise a minus sign
  negates the value in the unsigned type. The result is the value and the unread rest
  of the string (what \<^verbatim>\<open>end\<close> points to).
\<close>

definition isspace :: "char \<Rightarrow> bool" where
  "isspace c = (c = CHR '' '' \<or> (9 \<le> (of_char c :: nat) \<and> (of_char c :: nat) \<le> 13))"

definition isdigit :: "char \<Rightarrow> bool" where
  "isdigit c = (48 \<le> (of_char c :: nat) \<and> (of_char c :: nat) \<le> 57)"

definition digit_value :: "char \<Rightarrow> nat" where
  "digit_value c = of_char c - 48"

fun scan_digits :: "nat \<Rightarrow> string \<Rightarrow> nat \<times> string" where
  "scan_digits acc [] = (acc, [])"
| "scan_digits acc (c # cs) =
     (if isdigit c then scan_digits (acc * 10 + digit_value c) cs else (acc, c # cs))"

definition strip_sign :: "string \<Rightarrow> bool \<times> string" where
  "strip_sign s =
     (case s of
        [] \<Rightarrow> (False, [])
      | c # cs \<Rightarrow>
          if c = CHR ''-'' then (True, cs)
          else if c = CHR ''+'' then (False, cs)
          else (False, s))"

definition ULLONG_MAX :: nat where
  "ULLONG_MAX = 2 ^ 64 - 1"

definition strtoull :: "string \<Rightarrow> uint64 \<times> string" where
  "strtoull s =
     (let (neg, u) = strip_sign (dropWhile isspace s) in
      case u of
        [] \<Rightarrow> (0, s)
      | c # cs \<Rightarrow>
          if isdigit c then
            (let (n, rest) = scan_digits 0 u in
             ((if ULLONG_MAX < n then of_nat ULLONG_MAX
               else if neg then - of_nat n else of_nat n), rest))
          else (0, s))"

text \<open>On LP64, \<^verbatim>\<open>unsigned long\<close> is \<^verbatim>\<open>unsigned long long\<close>.\<close>

definition strtoul :: "string \<Rightarrow> uint64 \<times> string" where
  "strtoul s = strtoull s"

section \<open>Optional fields: a value and a validity flag\<close>

text \<open>
  \<^verbatim>\<open>nvtop/extract_gpuinfo_common.h\<close>, which declares the structures and the
  \<^verbatim>\<open>SET_GPUINFO_...\<close> and \<^verbatim>\<open>GPUINFO_..._FIELD_VALID\<close> macros, is not among the
  sources. The records below hold the fields the two source files read and write, with
  the C types their uses show; the validity bitmap \<^verbatim>\<open>valid\<close> is the set of the flags
  that are set. \<^verbatim>\<open>SET_GPUINFO_PROCESS(p, f, v)\<close> stores \<^verbatim>\<open>v\<close> in \<^verbatim>\<open>p->f\<close> and sets
  the flag of \<^verbatim>\<open>f\<close>; \<^verbatim>\<open>GPUINFO_PROCESS_FIELD_VALID(p, f)\<close> tests the flag;
  \<^verbatim>\<open>RESET_ALL\<close> clears every flag.

  Names are those of the sources. Where two structures have a field of the same name,
  the field of the later one carries a prefix: \<open>uc_\<close> in the cache key, \<open>cache_\<close> in
  the cache entry, \<open>l_\<close> for the local variables of the parser, \<open>dynamic_\<close> for the
  flags of the dynamic information.
\<close>

datatype gpuinfo_process_info_valid =
    gpuinfo_process_gpu_usage_valid
  | gpuinfo_process_encode_usage_valid
  | gpuinfo_process_decode_usage_valid
  | gpuinfo_process_gpu_memory_usage_valid
  | gpuinfo_process_gpu_cycles_valid

record gpu_process =
  type :: uint32
  pid :: int
  gpu_cycles :: uint64
  gpu_usage :: uint32
  encode_usage :: uint32
  decode_usage :: uint32
  gpu_memory_usage :: uint64
  valid :: "gpuinfo_process_info_valid set"

definition gpu_process_unknown :: uint32 where "gpu_process_unknown = 0"
definition gpu_process_graphical :: uint32 where "gpu_process_graphical = 1"
definition gpu_process_compute :: uint32 where "gpu_process_compute = 2"

definition set_gpu_cycles :: "uint64 \<Rightarrow> gpu_process \<Rightarrow> gpu_process" where
  "set_gpu_cycles v p =
     p\<lparr>gpu_cycles := v, valid := insert gpuinfo_process_gpu_cycles_valid (valid p)\<rparr>"

definition set_gpu_usage :: "uint32 \<Rightarrow> gpu_process \<Rightarrow> gpu_process" where
  "set_gpu_usage v p =
     p\<lparr>gpu_usage := v, valid := insert gpuinfo_process_gpu_usage_valid (valid p)\<rparr>"

definition set_encode_usage :: "uint32 \<Rightarrow> gpu_process \<Rightarrow> gpu_process" where
  "set_encode_usage v p =
     p\<lparr>encode_usage := v, valid := insert gpuinfo_process_encode_usage_valid (valid p)\<rparr>"

definition set_decode_usage :: "uint32 \<Rightarrow> gpu_process \<Rightarrow> gpu_process" where
  "set_decode_usage v p =
     p\<lparr>decode_usage := v, valid := insert gpuinfo_process_decode_usage_valid (valid p)\<rparr>"

definition set_gpu_memory_usage :: "uint64 \<Rightarrow> gpu_process \<Rightarrow> gpu_process" where
  "set_gpu_memory_usage v p =
     p\<lparr>gpu_memory_usage := v,
       valid := insert gpuinfo_process_gpu_memory_usage_valid (valid p)\<rparr>"

section \<open>The Intel Xe back end: per-process cycle counters and their cache\<close>

text \<open>
  \<^verbatim>\<open>extract_gpuinfo_intel.h\<close> is not among the sources. \<^verbatim>\<open>union intel_cycles\<close>
  overlays the named counters \<^verbatim>\<open>rcs\<close>, \<^verbatim>\<open>vcs\<close>, \<^verbatim>\<open>vecs\<close>, \<^verbatim>\<open>bcs\<close>, \<^verbatim>\<open>ccs\<close>
  with \<^verbatim>\<open>array[5]\<close>, in the order of the key tables \<^verbatim>\<open>cycles_keys\<close> and
  \<^verbatim>\<open>total_cycles_keys\<close>.
\<close>

record intel_cycles =
  rcs :: uint64
  vcs :: uint64
  vecs :: uint64
  bcs :: uint64
  ccs :: uint64

definition zero_cycles :: intel_cycles where
  "zero_cycles = \<lparr>rcs = 0, vcs = 0, vecs = 0, bcs = 0, ccs = 0\<rparr>"

text \<open>\<^verbatim>\<open>c.array[i]\<close> and \<^verbatim>\<open>c.array[i] = v\<close>, for \<^verbatim>\<open>i\<close> below \<^verbatim>\<open>ARRAY_SIZE\<close>.\<close>

definition ARRAY_SIZE_cycles :: nat where
  "ARRAY_SIZE_cycles = 5"

definition array_get :: "intel_cycles \<Rightarrow> nat \<Rightarrow> uint64" where
  "array_get c i =
     (if i = 0 then rcs c else if i = 1 then vcs c else if i = 2 then vecs c
      else if i = 3 then bcs c else ccs c)"

definition array_set :: "nat \<Rightarrow> uint64 \<Rightarrow> intel_cycles \<Rightarrow> intel_cycles" where
  "array_set i v c =
     (if i = 0 then c\<lparr>rcs := v\<rparr> else if i = 1 then c\<lparr>vcs := v\<rparr>
      else if i = 2 then c\<lparr>vecs := v\<rparr> else if i = 3 then c\<lparr>bcs := v\<rparr>
      else c\<lparr>ccs := v\<rparr>)"

definition xe_drm_intel_vram :: string where
  "xe_drm_intel_vram = ''drm-total-vram0''"

definition cycles_keys :: "string list" where
  "cycles_keys =
     [''drm-cycles-rcs'', ''drm-cycles-vcs'', ''drm-cycles-vecs'', ''drm-cycles-bcs'',
      ''drm-cycles-ccs'']"

definition total_cycles_keys :: "string list" where
  "total_cycles_keys =
     [''drm-total-cycles-rcs'', ''drm-total-cycles-vcs'', ''drm-total-cycles-vecs'',
      ''drm-total-cycles-bcs'', ''drm-total-cycles-ccs'']"

text \<open>
  The cache key \<^verbatim>\<open>struct unique_cache_id\<close> and the cache entry
  \<^verbatim>\<open>struct intel_process_info_cache\<close>. The device identity \<^verbatim>\<open>pdev\<close> is the
  device's own string, shared by every key of that device.
\<close>

record unique_cache_id =
  uc_client_id :: uint32
  uc_pid :: int
  uc_pdev :: string

datatype intel_cache_valid = intel_cache_gpu_cycles_valid | intel_cache_total_cycles_valid

record intel_process_info_cache =
  client_id :: unique_cache_id
  cache_gpu_cycles :: intel_cycles
  cache_total_cycles :: intel_cycles
  cache_valid :: "intel_cache_valid set"

text \<open>
  A uthash table is modelled as the list of its entries, newest first. \<^verbatim>\<open>HASH_ADD\<close>
  does not look for the key: it adds the entry even if the key is there already.
  \<^verbatim>\<open>HASH_FIND\<close> gives the entry with the key that was added last, \<^verbatim>\<open>HASH_DEL\<close>
  unlinks the entry it is given.
\<close>

type_synonym cache_table = "intel_process_info_cache list"

definition HASH_FIND_CLIENT ::
  "cache_table \<Rightarrow> unique_cache_id \<Rightarrow> intel_process_info_cache option" where
  "HASH_FIND_CLIENT head k = find (\<lambda>e. client_id e = k) head"

definition HASH_DEL :: "cache_table \<Rightarrow> intel_process_info_cache \<Rightarrow> cache_table" where
  "HASH_DEL head e = remove1 e head"

definition HASH_ADD_CLIENT :: "cache_table \<Rightarrow> intel_process_info_cache \<Rightarrow> cache_table" where
  "HASH_ADD_CLIENT head e = e # head"

definition SET_INTEL_CACHE_gpu_cycles ::
  "intel_cycles \<Rightarrow> intel_process_info_cache \<Rightarrow> intel_process_info_cache" where
  "SET_INTEL_CACHE_gpu_cycles v e =
     e\<lparr>cache_gpu_cycles := v,
       cache_valid := insert intel_cache_gpu_cycles_valid (cache_valid e)\<rparr>"

definition SET_INTEL_CACHE_total_cycles ::
  "intel_cycles \<Rightarrow> intel_process_info_cache \<Rightarrow> intel_process_info_cache" where
  "SET_INTEL_CACHE_total_cycles v e =
     e\<lparr>cache_total_cycles := v,
       cache_valid := insert intel_cache_total_cycles_valid (cache_valid e)\<rparr>"

text \<open>
  What \<^verbatim>\<open>struct gpu_info_intel\<close> holds for the parser: the device identity
  \<^verbatim>\<open>base.pdev\<close> and the two cache generations.
\<close>

record gpu_info_intel =
  pdev :: string
  last_update_process_cache :: cache_table
  current_update_process_cache :: cache_table

text \<open>
  \<^verbatim>\<open>nvtop/extract_processinfo_fdinfo.h\<close> is not among the sources either. What the
  parser takes from it is a parameter of the model: the line splitter
  \<^verbatim>\<open>extract_drm_fdinfo_key_value\<close> (\<open>None\<close> when it returns false, the key and the
  value otherwise) and the two key names \<^verbatim>\<open>drm_pdev\<close> and \<^verbatim>\<open>drm_client_id\<close>.
\<close>

record fdinfo_decls =
  extract_drm_fdinfo_key_value :: "string \<Rightarrow> (string \<times> string) option"
  drm_pdev :: string
  drm_client_id :: string

subsection \<open>Step 1 of \<^verbatim>\<open>parse_drm_fdinfo_intel_xe\<close>: the loop over the lines\<close>

text \<open>The local variables of the function that the loop writes.\<close>

record parse_locals =
  client_id_set :: bool
  cid :: uint32
  l_gpu_cycles :: intel_cycles
  l_total_cycles :: intel_cycles

text \<open>
  \<^verbatim>\<open>cid\<close> is not initialised in the source; it is read only when
  \<^verbatim>\<open>client_id_set\<close> holds, after the loop has assigned it.
\<close>

definition initial_locals :: parse_locals where
  "initial_locals =
     \<lparr>client_id_set = False, cid = 0, l_gpu_cycles = zero_cycles,
      l_total_cycles = zero_cycles\<rparr>"

text \<open>The two \<^verbatim>\<open>for\<close> loops that capture the cycles of all engines.\<close>

definition capture :: "string list \<Rightarrow> string \<Rightarrow> string \<Rightarrow> intel_cycles \<Rightarrow> intel_cycles" where
  "capture keys key val c =
     fold (\<lambda>i c. if key = keys ! i then array_set i (fst (strtoull val)) c else c)
       [0..<ARRAY_SIZE_cycles] c"

text \<open>The memory key: add to a valid \<^verbatim>\<open>gpu_memory_usage\<close>, set an invalid one.\<close>

definition add_memory :: "string \<Rightarrow> gpu_process \<Rightarrow> gpu_process" where
  "add_memory val process_info =
     (let mem_int = fst (strtoul val) in
      if gpuinfo_process_gpu_memory_usage_valid \<in> valid process_info
      then set_gpu_memory_usage (gpu_memory_usage process_info + mem_int * 1024) process_info
      else set_gpu_memory_usage (mem_int * 1024) process_info)"

text \<open>
  The \<^verbatim>\<open>while\<close> loop over the lines of the fdinfo file (each without its newline).
  \<open>Inl\<close> is the \<^verbatim>\<open>return false\<close> inside the loop, with the process record as it is
  at that moment; \<open>Inr\<close> is the end of the file.
\<close>

fun parse_lines ::
  "fdinfo_decls \<Rightarrow> string \<Rightarrow> string list \<Rightarrow> parse_locals \<Rightarrow> gpu_process \<Rightarrow>
   gpu_process + (parse_locals \<times> gpu_process)" where
  "parse_lines D dev [] l process_info = Inr (l, process_info)"
| "parse_lines D dev (line # rest) l process_info =
     (case extract_drm_fdinfo_key_value D line of
        None \<Rightarrow> parse_lines D dev rest l process_info
      | Some (key, val) \<Rightarrow>
          if key = drm_pdev D then
            (if val \<noteq> dev then Inl process_info
             else parse_lines D dev rest l process_info)
          else if key = drm_client_id D then
            (let (n, endptr) = strtoul val; l1 = l\<lparr>cid := ucast n\<rparr> in
             if endptr \<noteq> [] then parse_lines D dev rest l1 process_info
             else parse_lines D dev rest (l1\<lparr>client_id_set := True\<rparr>) process_info)
          else if key = xe_drm_intel_vram then
            parse_lines D dev rest l (add_memory val process_info)
          else
            parse_lines D dev rest
              (l\<lparr>l_gpu_cycles := capture cycles_keys key val (l_gpu_cycles l),
                 l_total_cycles := capture total_cycles_keys key val (l_total_cycles l)\<rparr>)
              process_info)"

subsection \<open>Steps after the loop\<close>

text \<open>
  The \<^verbatim>\<open>ADD_USAGE(engine_name, target_field)\<close> macro. \<open>engine\<close> selects the
  engine's counter, \<open>getf\<close> and \<open>setf\<close> read the target field and store into it with
  \<^verbatim>\<open>SET_GPUINFO_PROCESS\<close>. The quotient is converted to \<^verbatim>\<open>unsigned\<close>.
\<close>

definition ADD_USAGE ::
  "(intel_cycles \<Rightarrow> uint64) \<Rightarrow> (gpu_process \<Rightarrow> uint32) \<Rightarrow>
   (uint32 \<Rightarrow> gpu_process \<Rightarrow> gpu_process) \<Rightarrow> parse_locals \<Rightarrow> intel_process_info_cache \<Rightarrow>
   gpu_process \<Rightarrow> error + gpu_process" where
  "ADD_USAGE engine getf setf l cache_entry process_info =
     (let d = engine (l_gpu_cycles l) - engine (cache_gpu_cycles cache_entry);
          td = engine (l_total_cycles l) - engine (cache_total_cycles cache_entry) in
      if td > 0 then
        (case udiv64 (d * 100) td of
           Inl err \<Rightarrow> Inl err
         | Inr q \<Rightarrow> Inr (setf (getf process_info + (ucast q :: uint32)) process_info))
      else Inr process_info)"

text \<open>Sequencing of steps that can stop with an error.\<close>

definition and_then :: "error + 'a \<Rightarrow> ('a \<Rightarrow> error + 'b) \<Rightarrow> error + 'b" where
  "and_then r f = (case r of Inl err \<Rightarrow> Inl err | Inr x \<Rightarrow> f x)"

text \<open>The sum of the cycles "just for internal bookkeeping".\<close>

definition cycles_sum :: "intel_cycles \<Rightarrow> uint64" where
  "cycles_sum c = fold (\<lambda>i s. s + array_get c i) [0..<ARRAY_SIZE_cycles] 0"

text \<open>The process type flags.\<close>

definition set_type_flags :: "intel_cycles \<Rightarrow> gpu_process \<Rightarrow> gpu_process" where
  "set_type_flags c process_info =
     (let p0 = process_info\<lparr>type := gpu_process_unknown\<rparr>;
          p1 = (if rcs c \<noteq> 0 then p0\<lparr>type := type p0 OR gpu_process_graphical\<rparr> else p0)
      in if ccs c \<noteq> 0 then p1\<lparr>type := type p1 OR gpu_process_compute\<rparr> else p1)"

text \<open>
  The branch for a key found in the previous generation, after \<^verbatim>\<open>HASH_DEL\<close>: the
  three usage fields are set to a valid 0, then the seven \<^verbatim>\<open>ADD_USAGE\<close> lines run in
  the order of the source.
\<close>

definition usage_from_cache ::
  "parse_locals \<Rightarrow> intel_process_info_cache \<Rightarrow> gpu_process \<Rightarrow> error + gpu_process" where
  "usage_from_cache l cache_entry process_info =
     (let p0 = set_encode_usage 0 (set_decode_usage 0 (set_gpu_usage 0 process_info)) in
      and_then (ADD_USAGE rcs gpu_usage set_gpu_usage l cache_entry p0) (\<lambda>p1.
      and_then (ADD_USAGE ccs gpu_usage set_gpu_usage l cache_entry p1) (\<lambda>p2.
      and_then (ADD_USAGE vcs decode_usage set_decode_usage l cache_entry p2) (\<lambda>p3.
      and_then (ADD_USAGE vcs gpu_usage set_gpu_usage l cache_entry p3) (\<lambda>p4.
      and_then (ADD_USAGE vecs encode_usage set_encode_usage l cache_entry p4) (\<lambda>p5.
      and_then (ADD_USAGE vecs gpu_usage set_gpu_usage l cache_entry p5) (\<lambda>p6.
      ADD_USAGE bcs gpu_usage set_gpu_usage l cache_entry p6)))))))"

text \<open>
  The entry \<^verbatim>\<open>calloc\<close> gives for a new process (all bytes zero), with its key set.
\<close>

definition new_cache_entry :: "unique_cache_id \<Rightarrow> intel_process_info_cache" where
  "new_cache_entry k =
     \<lparr>client_id = k, cache_gpu_cycles = zero_cycles, cache_total_cycles = zero_cycles,
      cache_valid = {}\<rparr>"

text \<open>
  The end of the function: the check compiled in unless \<^verbatim>\<open>NDEBUG\<close> is defined,
  whose \<^verbatim>\<open>assert\<close> aborts the program, then the new sample is stored in the entry
  and the entry added to the current generation.
\<close>

definition store_sample ::
  "bool \<Rightarrow> parse_locals \<Rightarrow> intel_process_info_cache \<Rightarrow> gpu_info_intel \<Rightarrow>
   error + gpu_info_intel" where
  "store_sample NDEBUG l cache_entry gpu_info =
     (if \<not> NDEBUG \<and>
         HASH_FIND_CLIENT (current_update_process_cache gpu_info) (client_id cache_entry) \<noteq> None
      then Inl Assertion_failed
      else Inr (gpu_info\<lparr>current_update_process_cache :=
                  HASH_ADD_CLIENT (current_update_process_cache gpu_info)
                    (SET_INTEL_CACHE_total_cycles (l_total_cycles l)
                      (SET_INTEL_CACHE_gpu_cycles (l_gpu_cycles l)
                        (cache_entry\<lparr>cache_valid := {}\<rparr>)))\<rparr>))"

text \<open>
  \<^verbatim>\<open>parse_drm_fdinfo_intel_xe\<close>. Besides the arguments of the C function (the device,
  the lines of the file, the process record) the model takes what the environment
  decides: whether the build defines \<^verbatim>\<open>NDEBUG\<close>, and whether \<^verbatim>\<open>calloc\<close> succeeds
  if it is called. The result is the returned boolean with the device and the process
  record as the call leaves them, or the error that stopped the program.
\<close>

definition parse_drm_fdinfo_intel_xe ::
  "fdinfo_decls \<Rightarrow> bool \<Rightarrow> bool \<Rightarrow> gpu_info_intel \<Rightarrow> string list \<Rightarrow> gpu_process \<Rightarrow>
   error + (bool \<times> gpu_info_intel \<times> gpu_process)" where
  "parse_drm_fdinfo_intel_xe D NDEBUG calloc_ok gpu_info fdinfo_file process_info =
     (case parse_lines D (pdev gpu_info) fdinfo_file initial_locals process_info of
        Inl p \<Rightarrow> Inr (False, gpu_info, p)
      | Inr (l, p) \<Rightarrow>
          (let p1 = set_gpu_cycles (cycles_sum (l_gpu_cycles l)) p in
           if \<not> client_id_set l then Inr (False, gpu_info, p1)
           else
             (let p2 = set_type_flags (l_gpu_cycles l) p1;
                  ucid = \<lparr>uc_client_id = cid l, uc_pid = pid p2, uc_pdev = pdev gpu_info\<rparr>
              in case HASH_FIND_CLIENT (last_update_process_cache gpu_info) ucid of
                   Some cache_entry \<Rightarrow>
                     (let g1 = gpu_info\<lparr>last_update_process_cache :=
                                 HASH_DEL (last_update_process_cache gpu_info) cache_entry\<rparr>
                      in and_then (usage_from_cache l cache_entry p2) (\<lambda>p3.
                         and_then (store_sample NDEBUG l cache_entry g1) (\<lambda>g2.
                         Inr (True, g2, p3))))
                 | None \<Rightarrow>
                     if \<not> calloc_ok then Inr (True, gpu_info, p2)
                     else and_then (store_sample NDEBUG l (new_cache_entry ucid) gpu_info)
                            (\<lambda>g2. Inr (True, g2, p2)))))"

text \<open>
  Modelled from the spec: \<^verbatim>\<open>extract_drm_fdinfo_key_value\<close>, which is missing from the
  sources. The spec has "newline-delimited \<^verbatim>\<open>key=value\<close> ASCII records" and skips
  "lines that do not match the \<^verbatim>\<open>key=value\<close> shape": a line with \<^verbatim>\<open>=\<close> splits at
  the first one. The statements below hold for every splitter; this one gives the
  examples their lines.
\<close>

definition split_key_value :: "string \<Rightarrow> (string \<times> string) option" where
  "split_key_value line =
     (if CHR ''='' \<in> set line
      then Some (takeWhile (\<lambda>c. c \<noteq> CHR ''='') line,
                 tl (dropWhile (\<lambda>c. c \<noteq> CHR ''='') line))
      else None)"

text \<open>
  Modelled from the spec: the "device-identity key" and the "client-id key", whose
  names \<^verbatim>\<open>drm_pdev\<close> and \<^verbatim>\<open>drm_client_id\<close> are declared in a header that is missing
  from the sources. The spec does not spell them; the examples use the key names of the
  kernel's DRM fdinfo format.
\<close>

definition key_value_decls :: fdinfo_decls where
  "key_value_decls =
     \<lparr>extract_drm_fdinfo_key_value = split_key_value, drm_pdev = ''drm-pdev'',
      drm_client_id = ''drm-client-id''\<rparr>"

section \<open>The device query of the Xe kernel driver\<close>

text \<open>
  The dynamic information of a device (\<^verbatim>\<open>struct gpuinfo_dynamic_info\<close>): the fields
  the sources use, and the set of validity flags that are set.
  \<^verbatim>\<open>SET_GPUINFO_DYNAMIC\<close> stores a value and sets its flag.
\<close>

datatype gpuinfo_dynamic_info_valid =
    gpuinfo_gpu_clock_speed_valid
  | gpuinfo_gpu_temp_valid
  | gpuinfo_fan_rpm_valid
  | gpuinfo_power_draw_valid
  | gpuinfo_mem_util_rate_valid
  | gpuinfo_total_memory_valid
  | gpuinfo_used_memory_valid
  | gpuinfo_free_memory_valid

record gpuinfo_dynamic_info =
  gpu_clock_speed :: uint32
  gpu_temp :: uint32
  fan_rpm :: uint32
  power_draw :: uint32
  mem_util_rate :: uint32
  total_memory :: uint64
  used_memory :: uint64
  free_memory :: uint64
  dynamic_valid :: "gpuinfo_dynamic_info_valid set"

definition set_total_memory :: "uint64 \<Rightarrow> gpuinfo_dynamic_info \<Rightarrow> gpuinfo_dynamic_info" where
  "set_total_memory v d =
     d\<lparr>total_memory := v, dynamic_valid := insert gpuinfo_total_memory_valid (dynamic_valid d)\<rparr>"

definition set_used_memory :: "uint64 \<Rightarrow> gpuinfo_dynamic_info \<Rightarrow> gpuinfo_dynamic_info" where
  "set_used_memory v d =
     d\<lparr>used_memory := v, dynamic_valid := insert gpuinfo_used_memory_valid (dynamic_valid d)\<rparr>"

definition set_free_memory :: "uint64 \<Rightarrow> gpuinfo_dynamic_info \<Rightarrow> gpuinfo_dynamic_info" where
  "set_free_memory v d =
     d\<lparr>free_memory := v, dynamic_valid := insert gpuinfo_free_memory_valid (dynamic_valid d)\<rparr>"

definition set_mem_util_rate :: "uint32 \<Rightarrow> gpuinfo_dynamic_info \<Rightarrow> gpuinfo_dynamic_info" where
  "set_mem_util_rate v d =
     d\<lparr>mem_util_rate := v, dynamic_valid := insert gpuinfo_mem_util_rate_valid (dynamic_valid d)\<rparr>"

text \<open>
  A memory region as the kernel reports it (\<^verbatim>\<open>struct drm_xe_mem_region\<close> of
  \<^verbatim>\<open>xe_drm.h\<close>): the fields the refresh reads.
\<close>

record drm_xe_mem_region =
  mem_class :: "16 word"
  total_size :: uint64
  used :: uint64

definition DRM_XE_MEM_REGION_CLASS_SYSMEM :: "16 word" where
  "DRM_XE_MEM_REGION_CLASS_SYSMEM = 0"

definition DRM_XE_MEM_REGION_CLASS_VRAM :: "16 word" where
  "DRM_XE_MEM_REGION_CLASS_VRAM = 1"

text \<open>
  One answer of the kernel to \<^verbatim>\<open>ioctl(fd, DRM_IOCTL_XE_DEVICE_QUERY, &query)\<close>: the
  return value, \<^verbatim>\<open>errno\<close>, and for a successful call the size it stores in
  \<^verbatim>\<open>query.size\<close> and the regions it writes to the buffer \<^verbatim>\<open>query.data\<close> points to.
  The environment of a call is the list of the answers to come.
\<close>

record ioctl_answer =
  ret :: int
  errno :: int
  answer_size :: uint32
  answer_regions :: "drm_xe_mem_region list"

definition EINTR :: int where "EINTR = 4"
definition EAGAIN :: int where "EAGAIN = 11"

text \<open>
  \<^verbatim>\<open>intel_ioctl\<close> repeats the call while it is interrupted. \<open>None\<close>: the answers
  end while the loop is still repeating.
\<close>

fun intel_ioctl :: "ioctl_answer list \<Rightarrow> (ioctl_answer \<times> ioctl_answer list) option" where
  "intel_ioctl [] = None"
| "intel_ioctl (a # rest) =
     (if ret a = - 1 \<and> (errno a = EINTR \<or> errno a = EAGAIN) then intel_ioctl rest
      else Some (a, rest))"

text \<open>
  \<^verbatim>\<open>xe_device_query_alloc_fetch\<close>: the first call learns the size, \<^verbatim>\<open>calloc\<close>
  allocates, the second call fills the buffer. The inner \<open>None\<close> is the \<^verbatim>\<open>NULL\<close>
  the function returns on a failure.
\<close>

definition xe_device_query_alloc_fetch ::
  "ioctl_answer list \<Rightarrow> bool \<Rightarrow> (drm_xe_mem_region list option \<times> ioctl_answer list) option" where
  "xe_device_query_alloc_fetch answers calloc_ok =
     (case intel_ioctl answers of
        None \<Rightarrow> None
      | Some (a1, k1) \<Rightarrow>
          if ret a1 \<noteq> 0 then Some (None, k1)
          else if \<not> calloc_ok then Some (None, k1)
          else
            (case intel_ioctl k1 of
               None \<Rightarrow> None
             | Some (a2, k2) \<Rightarrow>
                 if ret a2 \<noteq> 0 then Some (None, k2)
                 else Some (Some (answer_regions a2), k2)))"

text \<open>The body of the \<^verbatim>\<open>if\<close> for the region that is chosen.\<close>

definition populate_memory ::
  "drm_xe_mem_region \<Rightarrow> gpuinfo_dynamic_info \<Rightarrow> error + gpuinfo_dynamic_info" where
  "populate_memory mr dynamic_info =
     (let d1 = set_total_memory (total_size mr) dynamic_info in
      if used mr \<noteq> 0 then
        (let d2 = set_used_memory (used mr) d1;
             d3 = set_free_memory (total_memory d2 - used_memory d2) d2
         in case udiv64 (used_memory d3 * 100) (total_memory d3) of
              Inl err \<Rightarrow> Inl err
            | Inr q \<Rightarrow> Inr (set_mem_util_rate (ucast q) d3))
      else Inr d1)"

text \<open>
  The loop over \<^verbatim>\<open>regions->mem_regions\<close>, with \<^verbatim>\<open>num_mem_regions\<close> the number of
  regions in the answer; it stops at the first region it takes.
\<close>

fun scan_regions ::
  "nat \<Rightarrow> drm_xe_mem_region list \<Rightarrow> gpuinfo_dynamic_info \<Rightarrow> error + gpuinfo_dynamic_info" where
  "scan_regions num_mem_regions [] dynamic_info = Inr dynamic_info"
| "scan_regions num_mem_regions (mr # rest) dynamic_info =
     (if mem_class mr = DRM_XE_MEM_REGION_CLASS_VRAM \<or> num_mem_regions = 1
      then populate_memory mr dynamic_info
      else scan_regions num_mem_regions rest dynamic_info)"

text \<open>
  \<^verbatim>\<open>gpuinfo_intel_xe_refresh_dynamic_info\<close>, for a device with the descriptor
  \<^verbatim>\<open>card_fd\<close>. \<open>None\<close>: an \<^verbatim>\<open>intel_ioctl\<close> loop did not end; \<open>Some (Inl _)\<close>: the
  program stopped with an error; \<open>Some (Inr d)\<close>: the function returned and left the
  dynamic information \<open>d\<close>.
\<close>

definition gpuinfo_intel_xe_refresh_dynamic_info ::
  "int \<Rightarrow> ioctl_answer list \<Rightarrow> bool \<Rightarrow> gpuinfo_dynamic_info \<Rightarrow>
   (error + gpuinfo_dynamic_info) option" where
  "gpuinfo_intel_xe_refresh_dynamic_info card_fd answers calloc_ok dynamic_info =
     (if card_fd \<noteq> 0 then
        (case xe_device_query_alloc_fetch answers calloc_ok of
           None \<Rightarrow> None
         | Some (None, k) \<Rightarrow> Some (Inr dynamic_info)
         | Some (Some regions, k) \<Rightarrow> Some (scan_regions (length regions) regions dynamic_info))
      else Some (Inr dynamic_info))"

section \<open>\<^verbatim>\<open>nvtop.c\<close>: the snapshot printer and the main loop\<close>

text \<open>
  What \<^verbatim>\<open>main\<close> reads of a device (\<^verbatim>\<open>struct gpu_info\<close>): the name of
  \<^verbatim>\<open>static_info\<close>, the dynamic information, and the array \<^verbatim>\<open>processes\<close> with its
  \<^verbatim>\<open>processes_count\<close> elements, here a list.
\<close>

record gpu_info =
  device_name :: string
  dynamic_info :: gpuinfo_dynamic_info
  processes :: "gpu_process list"

subsection \<open>\<^verbatim>\<open>printf\<close>\<close>

text \<open>The conversions \<^verbatim>\<open>%u\<close> and \<^verbatim>\<open>%lu\<close>: an unsigned number in decimal.\<close>

definition digit_char :: "nat \<Rightarrow> char" where
  "digit_char n = ''0123456789'' ! n"

fun decimal :: "nat \<Rightarrow> string" where
  "decimal n = (if n < 10 then [digit_char n] else decimal (n div 10) @ [digit_char (n mod 10)])"

declare decimal.simps [simp del]

definition print_u :: "uint32 \<Rightarrow> string" where
  "print_u x = decimal (unat x)"

definition print_lu :: "uint64 \<Rightarrow> string" where
  "print_lu x = decimal (unat x)"

subsection \<open>The JSON object of one device\<close>

text \<open>"Calculate True Usage (Summing Processes)".\<close>

definition total_usage :: "gpu_process list \<Rightarrow> uint32" where
  "total_usage ps =
     (let t = fold (\<lambda>p t. if gpuinfo_process_gpu_usage_valid \<in> valid p then t + gpu_usage p else t)
                ps 0
      in if t > 100 then 100 else t)"

definition print_gpu_clock :: "gpuinfo_dynamic_info \<Rightarrow> string" where
  \<open>print_gpu_clock d =
     (if gpuinfo_gpu_clock_speed_valid \<in> dynamic_valid d
      then ''   "gpu_clock": "'' @ print_u (gpu_clock_speed d) @ ''MHz",\<newline>''
      else ''   "gpu_clock": null,\<newline>'')\<close>

definition print_temp :: "gpuinfo_dynamic_info \<Rightarrow> string" where
  \<open>print_temp d =
     (if gpuinfo_gpu_temp_valid \<in> dynamic_valid d
      then ''   "temp": "'' @ print_u (gpu_temp d) @ ''C",\<newline>''
      else ''   "temp": null,\<newline>'')\<close>

definition print_fan_speed :: "gpuinfo_dynamic_info \<Rightarrow> string" where
  \<open>print_fan_speed d =
     (if gpuinfo_fan_rpm_valid \<in> dynamic_valid d
      then ''   "fan_speed": "'' @ print_u (fan_rpm d) @ ''RPM",\<newline>''
      else ''   "fan_speed": null,\<newline>'')\<close>

definition print_power_draw :: "gpuinfo_dynamic_info \<Rightarrow> string" where
  \<open>print_power_draw d =
     (if gpuinfo_power_draw_valid \<in> dynamic_valid d
      then ''   "power_draw": "'' @ print_u (power_draw d div 1000) @ ''W",\<newline>''
      else ''   "power_draw": null,\<newline>'')\<close>

definition print_gpu_util :: "uint32 \<Rightarrow> string" where
  \<open>print_gpu_util t = ''   "gpu_util": "'' @ print_u t @ ''%",\<newline>''\<close>

definition print_mem_util :: "gpuinfo_dynamic_info \<Rightarrow> string" where
  \<open>print_mem_util d =
     (if gpuinfo_mem_util_rate_valid \<in> dynamic_valid d
      then ''   "mem_util": "'' @ print_u (mem_util_rate d) @ ''%",\<newline>''
      else ''   "mem_util": null,\<newline>'')\<close>

text \<open>"Memory Details".\<close>

definition print_memory_details :: "gpuinfo_dynamic_info \<Rightarrow> string" where
  \<open>print_memory_details d =
     (if gpuinfo_total_memory_valid \<in> dynamic_valid d
      then ''   "mem_total": "'' @ print_lu (total_memory d) @ ''",\<newline>'' @
           ''   "mem_used": "'' @ print_lu (used_memory d) @ ''",\<newline>'' @
           ''   "mem_free": "'' @ print_lu (free_memory d) @ ''"\<newline>''
      else ''   "mem_total": null\<newline>'')\<close>

text \<open>What the body of \<^verbatim>\<open>list_for_each\<close> prints for a device, after the separator.\<close>

definition print_device :: "gpu_info \<Rightarrow> string" where
  \<open>print_device device =
     ''  {\<newline>'' @
     ''   "device_name": "'' @ device_name device @ ''",\<newline>'' @
     print_gpu_clock (dynamic_info device) @
     print_temp (dynamic_info device) @
     print_fan_speed (dynamic_info device) @
     print_power_draw (dynamic_info device) @
     print_gpu_util (total_usage (processes device)) @
     print_mem_util (dynamic_info device) @
     print_memory_details (dynamic_info device) @
     ''  }''\<close>

fun print_devices :: "bool \<Rightarrow> gpu_info list \<Rightarrow> string" where
  \<open>print_devices is_first [] = []\<close>
| \<open>print_devices is_first (device # rest) =
     (if \<not> is_first then '',\<newline>'' else []) @ print_device device @ print_devices False rest\<close>

text \<open>Step 6, "MANUAL JSON OUTPUT": everything the snapshot writes to the standard output.\<close>

definition print_snapshot :: "gpu_info list \<Rightarrow> string" where
  \<open>print_snapshot monitoredGpus = ''[\<newline>'' @ print_devices True monitoredGpus @ ''\<newline>]\<newline>''\<close>

subsection \<open>The calls \<^verbatim>\<open>main\<close> makes\<close>

text \<open>
  The functions \<^verbatim>\<open>main\<close> calls are not among the sources (but for the vendor back end
  above, which the refresh functions reach). A run of \<^verbatim>\<open>main\<close> is modelled by the
  calls it makes, in order.
\<close>

datatype call =
    Gpuinfo_refresh_dynamic_info
  | Gpuinfo_refresh_processes
  | Gpuinfo_utilisation_rate
  | Gpuinfo_fix_dynamic_info_from_process_info
  | Gpuinfo_shutdown_info_extraction
  | Usleep nat
  | Printf string
  | Update_window_size_to_terminal_size
  | Interface_check_monitored_gpu_change
  | Save_current_data_to_ring
  | Timeout int
  | Draw_gpu_info_ncurses
  | Getch

text \<open>
  The branch \<^verbatim>\<open>if (show_snapshot)\<close>, up to its \<^verbatim>\<open>return\<close>. \<open>monitoredGpus\<close> is the
  list of devices as the refresh functions have left it when the printing starts.
\<close>

definition show_snapshot :: "gpu_info list \<Rightarrow> call list" where
  "show_snapshot monitoredGpus =
     [Gpuinfo_refresh_dynamic_info, Gpuinfo_refresh_processes, Usleep 250000,
      Gpuinfo_refresh_dynamic_info, Gpuinfo_refresh_processes,
      Usleep 1000000,
      Gpuinfo_refresh_dynamic_info, Gpuinfo_refresh_processes,
      Gpuinfo_utilisation_rate,
      Printf (print_snapshot monitoredGpus),
      Gpuinfo_shutdown_info_extraction]"

subsection \<open>The main loop\<close>

text \<open>
  What one iteration of \<^verbatim>\<open>while (!signal_exit)\<close> reads from its environment: the
  two signal flags, the value of \<^verbatim>\<open>interface_update_interval(interface)\<close> (in
  milliseconds), the value of \<^verbatim>\<open>interface_freeze_processes(interface)\<close>, and the
  measured time \<^verbatim>\<open>nvtop_difftime(time_before_sleep, time_after_sleep) * 1000\<close> that
  \<^verbatim>\<open>getch\<close> took.

  \<^verbatim>\<open>time_slept\<close> is a \<^verbatim>\<open>double\<close>. A finite \<^verbatim>\<open>double\<close> is the real number it
  stands for; comparison and the conversion of an \<^verbatim>\<open>int\<close> are exact. The rounded
  addition of two doubles is the parameter \<open>dadd\<close> of the model. The interval and the
  timeout are \<^verbatim>\<open>int\<close>s; the one subtraction on them stays in range for a slept time
  between 0 and the interval, and the model has it on the integers.
\<close>

record iteration =
  signal_resize_win :: bool
  signal_cont_received :: bool
  update_interval :: int
  freeze_processes :: bool
  slept :: real

text \<open>The cast \<^verbatim>\<open>(int)time_slept\<close> truncates towards zero.\<close>

definition int_of_double :: "real \<Rightarrow> int" where
  "int_of_double x = (if 0 \<le> x then \<lfloor>x\<rfloor> else \<lceil>x\<rceil>)"

text \<open>
  Lines 376 to 405: one iteration, up to the \<^verbatim>\<open>switch\<close> on the key that was read.
  The result is the calls of the iteration and the new value of \<^verbatim>\<open>time_slept\<close>.
\<close>

definition loop_body :: "(real \<Rightarrow> real \<Rightarrow> real) \<Rightarrow> iteration \<Rightarrow> real \<Rightarrow> call list \<times> real" where
  "loop_body dadd it time_slept =
     (let c0 = (if signal_resize_win it then [Update_window_size_to_terminal_size] else []) @
               (if signal_cont_received it then [Update_window_size_to_terminal_size] else []) @
               [Interface_check_monitored_gpu_change];
          (c1, t1) =
            (if time_slept \<ge> real_of_int (update_interval it) then
               ([Gpuinfo_refresh_dynamic_info] @
                (if \<not> freeze_processes it
                 then [Gpuinfo_refresh_processes, Gpuinfo_utilisation_rate,
                       Gpuinfo_fix_dynamic_info_from_process_info]
                 else []) @
                [Save_current_data_to_ring, Timeout (update_interval it)], 0)
             else
               ([Timeout (update_interval it - int_of_double time_slept)], time_slept))
      in (c0 @ c1 @ [Draw_gpu_info_ncurses, Getch], dadd t1 (slept it)))"

text \<open>
  The loop, for the iterations it makes: the calls of each iteration. \<^verbatim>\<open>main\<close> starts
  it with \<^verbatim>\<open>time_slept = interface_update_interval(interface)\<close>.
\<close>

fun main_loop :: "(real \<Rightarrow> real \<Rightarrow> real) \<Rightarrow> iteration list \<Rightarrow> real \<Rightarrow> call list list" where
  "main_loop dadd [] time_slept = []"
| "main_loop dadd (it # rest) time_slept =
     fst (loop_body dadd it time_slept) # main_loop dadd rest (snd (loop_body dadd it time_slept))"

section \<open>Notions the statements use\<close>

text \<open>
  The spec's words for the utilisation of an engine (its section 4.3):
  \<open>busy_delta = sample.busy - cached.busy\<close>, \<open>total_delta = sample.total - cached.total\<close>,
  and the percentage \<open>busy_delta * 100 / total_delta\<close> that an engine with a positive
  \<open>total_delta\<close> contributes; an engine whose \<open>total_delta\<close> is 0 contributes nothing.
  The arithmetic is that of the counters' type, \<^verbatim>\<open>uint64_t\<close>, and the percentage is
  converted to the \<^verbatim>\<open>unsigned\<close> of the utilisation fields.
\<close>

definition busy_delta ::
  "(intel_cycles \<Rightarrow> uint64) \<Rightarrow> parse_locals \<Rightarrow> intel_process_info_cache \<Rightarrow> uint64" where
  "busy_delta engine sample cached = engine (l_gpu_cycles sample) - engine (cache_gpu_cycles cached)"

definition total_delta ::
  "(intel_cycles \<Rightarrow> uint64) \<Rightarrow> parse_locals \<Rightarrow> intel_process_info_cache \<Rightarrow> uint64" where
  "total_delta engine sample cached =
     engine (l_total_cycles sample) - engine (cache_total_cycles cached)"

definition pct ::
  "(intel_cycles \<Rightarrow> uint64) \<Rightarrow> parse_locals \<Rightarrow> intel_process_info_cache \<Rightarrow> uint32" where
  "pct engine sample cached =
     (if total_delta engine sample cached > 0
      then ucast (busy_delta engine sample cached * 100 div total_delta engine sample cached)
      else 0)"

text \<open>The key under which a record of the process \<open>p\<close> is cached for the device.\<close>

definition record_key :: "gpu_info_intel \<Rightarrow> parse_locals \<Rightarrow> gpu_process \<Rightarrow> unique_cache_id" where
  "record_key gpu_info l p = \<lparr>uc_client_id = cid l, uc_pid = pid p, uc_pdev = pdev gpu_info\<rparr>"

text \<open>
  A line with the device-identity key whose value is not the device's: the line at
  which the parser returns false.
\<close>

definition mismatch :: "fdinfo_decls \<Rightarrow> string \<Rightarrow> string \<Rightarrow> bool" where
  "mismatch D dev line =
     (case extract_drm_fdinfo_key_value D line of
        None \<Rightarrow> False
      | Some (key, val) \<Rightarrow> key = drm_pdev D \<and> val \<noteq> dev)"

text \<open>The values of the memory-key lines of a record, in the order of the lines.\<close>

fun memory_values :: "fdinfo_decls \<Rightarrow> string list \<Rightarrow> string list" where
  "memory_values D [] = []"
| "memory_values D (line # rest) =
     (case extract_drm_fdinfo_key_value D line of
        None \<Rightarrow> memory_values D rest
      | Some (key, val) \<Rightarrow>
          if key \<noteq> drm_pdev D \<and> key \<noteq> drm_client_id D \<and> key = xe_drm_intel_vram
          then val # memory_values D rest
          else memory_values D rest)"

text \<open>
  The lines of a record the loop reads: those before the line at which the parser
  returns false, all of them when there is no such line.
\<close>

definition scanned_lines :: "fdinfo_decls \<Rightarrow> string \<Rightarrow> string list \<Rightarrow> string list" where
  "scanned_lines D dev fdinfo_file = takeWhile (\<lambda>line. \<not> mismatch D dev line) fdinfo_file"

text \<open>The values of the memory-key lines the loop reads.\<close>

definition scanned_memory_values :: "fdinfo_decls \<Rightarrow> string \<Rightarrow> string list \<Rightarrow> string list" where
  "scanned_memory_values D dev fdinfo_file = memory_values D (scanned_lines D dev fdinfo_file)"



text \<open>The process record a run of the loop over the lines ends with.\<close>

definition out_process :: "gpu_process + (parse_locals \<times> gpu_process) \<Rightarrow> gpu_process" where
  "out_process r = (case r of Inl q \<Rightarrow> q | Inr (l, q) \<Rightarrow> q)"



text \<open>An iteration of the main loop samples when it refreshes the devices.\<close>

definition samples :: "call list \<Rightarrow> bool" where
  "samples calls = (Gpuinfo_refresh_dynamic_info \<in> set calls)"

text \<open>The positions at which a call stands in a run.\<close>

definition positions :: "call \<Rightarrow> call list \<Rightarrow> nat list" where
  "positions c calls = filter (\<lambda>i. calls ! i = c) [0..<length calls]"

section \<open>Concrete data for the examples\<close>

text \<open>
  A device, the record of a process as a cycle starts with it (the pid set, no field
  valid), and the fdinfo records of two samples of one client, the second 500 busy
  cycles and 500 total cycles of the render engine after the first (the scenario of the
  spec's section 8).
\<close>

definition example_pdev :: string where
  "example_pdev = ''0000:03:00.0''"

definition fresh_process :: gpu_process where
  "fresh_process =
     \<lparr>type = 0, pid = 1234, gpu_cycles = 0, gpu_usage = 0, encode_usage = 0,
      decode_usage = 0, gpu_memory_usage = 0, valid = {}\<rparr>"

definition sample_1 :: "string list" where
  "sample_1 =
     [''drm-client-id=7'', ''drm-pdev=0000:03:00.0'', ''drm-total-vram0=4'',
      ''drm-cycles-rcs=1000'', ''drm-total-cycles-rcs=10000'']"

definition sample_2 :: "string list" where
  "sample_2 =
     [''drm-client-id=7'', ''drm-pdev=0000:03:00.0'', ''drm-total-vram0=4'',
      ''drm-cycles-rcs=1500'', ''drm-total-cycles-rcs=10500'']"

definition locals_1 :: parse_locals where
  "locals_1 =
     \<lparr>client_id_set = True, cid = 7,
      l_gpu_cycles = \<lparr>rcs = 1000, vcs = 0, vecs = 0, bcs = 0, ccs = 0\<rparr>,
      l_total_cycles = \<lparr>rcs = 10000, vcs = 0, vecs = 0, bcs = 0, ccs = 0\<rparr>\<rparr>"

definition locals_2 :: parse_locals where
  "locals_2 =
     \<lparr>client_id_set = True, cid = 7,
      l_gpu_cycles = \<lparr>rcs = 1500, vcs = 0, vecs = 0, bcs = 0, ccs = 0\<rparr>,
      l_total_cycles = \<lparr>rcs = 10500, vcs = 0, vecs = 0, bcs = 0, ccs = 0\<rparr>\<rparr>"

definition scanned_process :: gpu_process where
  "scanned_process =
     fresh_process\<lparr>gpu_memory_usage := 4096, valid := {gpuinfo_process_gpu_memory_usage_valid}\<rparr>"

text \<open>The cache entry the first sample leaves, and devices around it.\<close>

definition entry_1 :: intel_process_info_cache where
  "entry_1 =
     \<lparr>client_id = \<lparr>uc_client_id = 7, uc_pid = 1234, uc_pdev = example_pdev\<rparr>,
      cache_gpu_cycles = \<lparr>rcs = 1000, vcs = 0, vecs = 0, bcs = 0, ccs = 0\<rparr>,
      cache_total_cycles = \<lparr>rcs = 10000, vcs = 0, vecs = 0, bcs = 0, ccs = 0\<rparr>,
      cache_valid = {intel_cache_gpu_cycles_valid, intel_cache_total_cycles_valid}\<rparr>"

definition device_empty :: gpu_info_intel where
  "device_empty =
     \<lparr>pdev = example_pdev, last_update_process_cache = [], current_update_process_cache = []\<rparr>"

definition device_cycle_2 :: gpu_info_intel where
  "device_cycle_2 =
     \<lparr>pdev = example_pdev, last_update_process_cache = [entry_1],
      current_update_process_cache = []\<rparr>"

text \<open>Three processes of a device; the utilisation of the second is not valid.\<close>

definition three_processes :: "gpu_process list" where
  "three_processes =
     [fresh_process\<lparr>gpu_usage := 70, valid := {gpuinfo_process_gpu_usage_valid}\<rparr>,
      fresh_process\<lparr>gpu_usage := 55\<rparr>,
      fresh_process\<lparr>gpu_usage := 45, valid := {gpuinfo_process_gpu_usage_valid}\<rparr>]"

text \<open>
  An iteration of the main loop with an update interval of 1000 milliseconds, no signal
  and no freeze, in which \<^verbatim>\<open>getch\<close> takes the given time.
\<close>

definition iteration_of :: "real \<Rightarrow> iteration" where
  "iteration_of s =
     \<lparr>signal_resize_win = False, signal_cont_received = False, update_interval = 1000,
      freeze_processes = False, slept = s\<rparr>"

text \<open>The dynamic information of a device with no field valid.\<close>

definition no_dynamic_info :: gpuinfo_dynamic_info where
  "no_dynamic_info =
     \<lparr>gpu_clock_speed = 0, gpu_temp = 0, fan_rpm = 0, power_draw = 0, mem_util_rate = 0,
      total_memory = 0, used_memory = 0, free_memory = 0, dynamic_valid = {}\<rparr>"

text \<open>
  Two devices of a snapshot: one without processes, one with the three processes above.
  Neither has a valid dynamic field.
\<close>

definition idle_device :: gpu_info where
  "idle_device =
     \<lparr>device_name = ''Intel Arc A380'', dynamic_info = no_dynamic_info, processes = []\<rparr>"

definition busy_device :: gpu_info where
  "busy_device =
     \<lparr>device_name = ''Intel Arc A770'', dynamic_info = no_dynamic_info,
      processes = three_processes\<rparr>"

text \<open>
  Answers of the kernel: an interrupted call, a refused call, the answer to the first
  call of a query (the size), and the answer to the second call with the regions of a
  discrete card, the system memory and 8 GiB of local memory of which 2 GiB are in use.
\<close>

definition interrupted_answer :: ioctl_answer where
  "interrupted_answer = \<lparr>ret = - 1, errno = EINTR, answer_size = 0, answer_regions = []\<rparr>"

definition refused_answer :: ioctl_answer where
  "refused_answer = \<lparr>ret = - 1, errno = 13, answer_size = 0, answer_regions = []\<rparr>"

definition size_answer :: ioctl_answer where
  "size_answer = \<lparr>ret = 0, errno = 0, answer_size = 176, answer_regions = []\<rparr>"

definition sysmem_region :: drm_xe_mem_region where
  "sysmem_region =
     \<lparr>mem_class = DRM_XE_MEM_REGION_CLASS_SYSMEM, total_size = 17179869184, used = 0\<rparr>"

definition vram_region :: drm_xe_mem_region where
  "vram_region =
     \<lparr>mem_class = DRM_XE_MEM_REGION_CLASS_VRAM, total_size = 8589934592, used = 2147483648\<rparr>"

definition regions_answer :: ioctl_answer where
  "regions_answer =
     \<lparr>ret = 0, errno = 0, answer_size = 176,
      answer_regions = [sysmem_region, vram_region]\<rparr>"




section \<open>Facts about the model\<close>

subsection \<open>Evaluation of the examples\<close>

lemma upt_5: "[0..<5] = [0, 1, 2, 3, 4::nat]"
  by (simp add: upt_rec)

lemma capture_cycles:
  "capture cycles_keys key val c =
     (if key = ''drm-cycles-ccs'' then c\<lparr>ccs := fst (strtoull val)\<rparr>
      else if key = ''drm-cycles-bcs'' then c\<lparr>bcs := fst (strtoull val)\<rparr>
      else if key = ''drm-cycles-vecs'' then c\<lparr>vecs := fst (strtoull val)\<rparr>
      else if key = ''drm-cycles-vcs'' then c\<lparr>vcs := fst (strtoull val)\<rparr>
      else if key = ''drm-cycles-rcs'' then c\<lparr>rcs := fst (strtoull val)\<rparr>
      else c)"
  by (simp add: capture_def cycles_keys_def ARRAY_SIZE_cycles_def array_set_def upt_5)

lemma capture_total_cycles:
  "capture total_cycles_keys key val c =
     (if key = ''drm-total-cycles-ccs'' then c\<lparr>ccs := fst (strtoull val)\<rparr>
      else if key = ''drm-total-cycles-bcs'' then c\<lparr>bcs := fst (strtoull val)\<rparr>
      else if key = ''drm-total-cycles-vecs'' then c\<lparr>vecs := fst (strtoull val)\<rparr>
      else if key = ''drm-total-cycles-vcs'' then c\<lparr>vcs := fst (strtoull val)\<rparr>
      else if key = ''drm-total-cycles-rcs'' then c\<lparr>rcs := fst (strtoull val)\<rparr>
      else c)"
  by (simp add: capture_def total_cycles_keys_def ARRAY_SIZE_cycles_def array_set_def upt_5)

lemma cycles_sum_eq: "cycles_sum c = rcs c + vcs c + vecs c + bcs c + ccs c"
  by (simp add: cycles_sum_def ARRAY_SIZE_cycles_def array_get_def upt_5)

lemmas eval_defs =
  key_value_decls_def split_key_value_def xe_drm_intel_vram_def strtoul_def strtoull_def
  strip_sign_def isspace_def isdigit_def digit_value_def ULLONG_MAX_def capture_cycles
  capture_total_cycles add_memory_def set_gpu_memory_usage_def initial_locals_def
  zero_cycles_def Let_def example_pdev_def

lemma scan_sample_1:
  "parse_lines key_value_decls example_pdev sample_1 initial_locals fresh_process =
     Inr (locals_1, scanned_process)"
  by (simp add: sample_1_def fresh_process_def locals_1_def scanned_process_def eval_defs)

lemma scan_sample_2:
  "parse_lines key_value_decls example_pdev sample_2 initial_locals fresh_process =
     Inr (locals_2, scanned_process)"
  by (simp add: sample_2_def fresh_process_def locals_2_def scanned_process_def eval_defs)

lemma find_entry_1:
  "HASH_FIND_CLIENT [entry_1] \<lparr>uc_client_id = 7, uc_pid = 1234, uc_pdev = example_pdev\<rparr> =
     Some entry_1"
  by (simp add: HASH_FIND_CLIENT_def entry_1_def)

subsection \<open>The utilisation macro\<close>

lemma word_gt0_iff: "(0 < (w :: 'a::len word)) = (w \<noteq> 0)"
  by (rule word_neq_0_conv [symmetric])

lemma ADD_USAGE_gpu_usage:
  "gpuinfo_process_gpu_usage_valid \<in> valid p \<Longrightarrow>
   ADD_USAGE engine gpu_usage set_gpu_usage l e p =
     Inr (p\<lparr>gpu_usage := gpu_usage p + pct engine l e\<rparr>)"
  by (simp add: ADD_USAGE_def udiv64_def pct_def busy_delta_def total_delta_def Let_def
      set_gpu_usage_def insert_absorb word_gt0_iff)

lemma ADD_USAGE_decode_usage:
  "gpuinfo_process_decode_usage_valid \<in> valid p \<Longrightarrow>
   ADD_USAGE engine decode_usage set_decode_usage l e p =
     Inr (p\<lparr>decode_usage := decode_usage p + pct engine l e\<rparr>)"
  by (simp add: ADD_USAGE_def udiv64_def pct_def busy_delta_def total_delta_def Let_def
      set_decode_usage_def insert_absorb word_gt0_iff)

lemma ADD_USAGE_encode_usage:
  "gpuinfo_process_encode_usage_valid \<in> valid p \<Longrightarrow>
   ADD_USAGE engine encode_usage set_encode_usage l e p =
     Inr (p\<lparr>encode_usage := encode_usage p + pct engine l e\<rparr>)"
  by (simp add: ADD_USAGE_def udiv64_def pct_def busy_delta_def total_delta_def Let_def
      set_encode_usage_def insert_absorb word_gt0_iff)

lemma insert_twice:
  "insert a (insert b (insert c (insert a (insert b (insert c V))))) =
     insert a (insert b (insert c V))"
  by auto

lemma usage_from_cache_eq:
  "usage_from_cache l e p =
     Inr (p\<lparr>gpu_usage := pct rcs l e + pct ccs l e + pct vcs l e + pct vecs l e + pct bcs l e,
            decode_usage := pct vcs l e,
            encode_usage := pct vecs l e,
            valid := insert gpuinfo_process_encode_usage_valid
                       (insert gpuinfo_process_decode_usage_valid
                         (insert gpuinfo_process_gpu_usage_valid (valid p)))\<rparr>)"
  by (simp add: usage_from_cache_def and_then_def ADD_USAGE_gpu_usage ADD_USAGE_decode_usage
      ADD_USAGE_encode_usage set_gpu_usage_def set_decode_usage_def set_encode_usage_def)

lemma pct_exact:
  assumes busy: "engine (cache_gpu_cycles e) \<le> engine (l_gpu_cycles l)"
      and tot: "engine (cache_total_cycles e) < engine (l_total_cycles l)"
      and prod: "(unat (engine (l_gpu_cycles l)) - unat (engine (cache_gpu_cycles e))) * 100
                   < 2 ^ 64"
      and quot: "(unat (engine (l_gpu_cycles l)) - unat (engine (cache_gpu_cycles e))) * 100
                   div (unat (engine (l_total_cycles l)) - unat (engine (cache_total_cycles e)))
                 < 2 ^ 32"
  shows "unat (pct engine l e) =
           (unat (engine (l_gpu_cycles l)) - unat (engine (cache_gpu_cycles e))) * 100
             div (unat (engine (l_total_cycles l)) - unat (engine (cache_total_cycles e)))"
proof -
  let ?b = "unat (engine (l_gpu_cycles l)) - unat (engine (cache_gpu_cycles e))"
  let ?t = "unat (engine (l_total_cycles l)) - unat (engine (cache_total_cycles e))"
  have b: "unat (busy_delta engine l e) = ?b"
    using busy by (simp add: busy_delta_def unat_sub)
  have t: "unat (total_delta engine l e) = ?t"
    using tot by (simp add: total_delta_def unat_sub)
  have pos: "0 < total_delta engine l e"
    using tot by (simp add: total_delta_def word_gt0_iff)
  have p: "unat (busy_delta engine l e * 100) = ?b * 100"
    using prod b by (simp add: unat_word_ariths)
  have q: "unat (busy_delta engine l e * 100 div total_delta engine l e) = ?b * 100 div ?t"
    by (simp add: unat_div p t)
  have "unat (ucast (busy_delta engine l e * 100 div total_delta engine l e) :: uint32)
          = ?b * 100 div ?t"
    using quot q by (simp add: unsigned_ucast_eq take_bit_nat_eq_self)
  then show ?thesis
    using pos by (simp add: pct_def)
qed

subsection \<open>The loop over the lines\<close>

lemma parse_lines_process:
  "out_process (parse_lines D dev ls l p) =
     fold add_memory (memory_values D (takeWhile (\<lambda>x. \<not> mismatch D dev x) ls)) p"
  by (induction D dev ls l p rule: parse_lines.induct)
     (auto simp: out_process_def mismatch_def Let_def split: option.splits prod.splits)

lemma parse_lines_Inl:
  "(\<exists>q. parse_lines D dev ls l p = Inl q) = (\<exists>x\<in>set ls. mismatch D dev x)"
  by (induction D dev ls l p rule: parse_lines.induct)
     (auto simp: mismatch_def Let_def split: option.splits prod.splits)

lemma fold_add_memory:
  "fold add_memory vs p =
     (if vs = [] then p
      else p\<lparr>gpu_memory_usage :=
               (if gpuinfo_process_gpu_memory_usage_valid \<in> valid p
                then gpu_memory_usage p else 0)
               + sum_list (map (\<lambda>val. fst (strtoul val) * 1024) vs),
             valid := insert gpuinfo_process_gpu_memory_usage_valid (valid p)\<rparr>)"
proof (induction vs arbitrary: p)
  case Nil
  then show ?case by simp
next
  case (Cons v vs)
  have "fold add_memory (v # vs) p = fold add_memory vs (add_memory v p)"
    by simp
  also have "\<dots> =
     (if vs = [] then add_memory v p
      else (add_memory v p)\<lparr>gpu_memory_usage :=
               (if gpuinfo_process_gpu_memory_usage_valid \<in> valid (add_memory v p)
                then gpu_memory_usage (add_memory v p) else 0)
               + sum_list (map (\<lambda>val. fst (strtoul val) * 1024) vs),
             valid := insert gpuinfo_process_gpu_memory_usage_valid (valid (add_memory v p))\<rparr>)"
    by (rule Cons.IH)
  finally have step: "fold add_memory (v # vs) p =
     (if vs = [] then add_memory v p
      else (add_memory v p)\<lparr>gpu_memory_usage :=
               (if gpuinfo_process_gpu_memory_usage_valid \<in> valid (add_memory v p)
                then gpu_memory_usage (add_memory v p) else 0)
               + sum_list (map (\<lambda>val. fst (strtoul val) * 1024) vs),
             valid := insert gpuinfo_process_gpu_memory_usage_valid (valid (add_memory v p))\<rparr>)" .
  show ?case
    by (subst step) (simp add: add_memory_def set_gpu_memory_usage_def Let_def add.assoc)
qed

lemma parse_lines_scanned:
  assumes "parse_lines D dev ls l0 p = Inr (l, q)"
  shows "q = fold add_memory (memory_values D ls) p"
proof -
  have "\<not> (\<exists>x\<in>set ls. mismatch D dev x)"
    using assms parse_lines_Inl [of D dev ls l0 p] by auto
  then have tw: "takeWhile (\<lambda>x. \<not> mismatch D dev x) ls = ls"
    by (intro takeWhile_eq_all_conv [THEN iffD2]) simp
  have "out_process (parse_lines D dev ls l0 p) = q"
    by (simp add: assms out_process_def)
  then show ?thesis
    unfolding parse_lines_process tw by simp
qed

lemma parse_lines_scanned_values:
  "out_process (parse_lines D dev ls l p) = fold add_memory (scanned_memory_values D dev ls) p"
  by (simp add: parse_lines_process scanned_memory_values_def scanned_lines_def)

lemma scanned_lines_all:
  "\<not> (\<exists>x\<in>set ls. mismatch D dev x) \<Longrightarrow> scanned_lines D dev ls = ls"
  unfolding scanned_lines_def
  by (intro takeWhile_eq_all_conv [THEN iffD2]) simp

lemma scanned_memory_values_all:
  "\<not> (\<exists>x\<in>set ls. mismatch D dev x) \<Longrightarrow> scanned_memory_values D dev ls = memory_values D ls"
proof -
  assume "\<not> (\<exists>x\<in>set ls. mismatch D dev x)"
  then have tw: "scanned_lines D dev ls = ls"
    by (rule scanned_lines_all)
  show ?thesis
    unfolding scanned_memory_values_def tw ..
qed

lemma pid_fold_add_memory: "pid (fold add_memory vs p) = pid p"
  by (simp add: fold_add_memory)

lemma pid_set_type_flags: "pid (set_type_flags c p) = pid p"
  by (simp add: set_type_flags_def Let_def)

subsection \<open>The four ways through the parser\<close>

lemma parse_mismatch:
  assumes "parse_lines D (pdev g) f initial_locals p = Inl q"
  shows "parse_drm_fdinfo_intel_xe D NDEBUG c g f p = Inr (False, g, q)"
  by (simp add: parse_drm_fdinfo_intel_xe_def assms)

lemma parse_no_client_id:
  assumes "parse_lines D (pdev g) f initial_locals p = Inr (l, q)"
      and "\<not> client_id_set l"
  shows "parse_drm_fdinfo_intel_xe D NDEBUG c g f p =
           Inr (False, g, set_gpu_cycles (cycles_sum (l_gpu_cycles l)) q)"
  by (simp add: parse_drm_fdinfo_intel_xe_def assms Let_def)

lemma record_key_scanned:
  assumes "parse_lines D (pdev g) f initial_locals p = Inr (l, q)"
  shows "\<lparr>uc_client_id = cid l,
          uc_pid = pid (set_type_flags (l_gpu_cycles l)
                         (set_gpu_cycles (cycles_sum (l_gpu_cycles l)) q)),
          uc_pdev = pdev g\<rparr> = record_key g l p"
proof -
  have "pid q = pid p"
    using parse_lines_scanned [OF assms] by (simp add: pid_fold_add_memory)
  then show ?thesis
    by (simp add: record_key_def pid_set_type_flags set_gpu_cycles_def)
qed

lemma parse_hit:
  assumes scan: "parse_lines D (pdev g) f initial_locals p = Inr (l, q)"
      and cid: "client_id_set l"
      and hit: "HASH_FIND_CLIENT (last_update_process_cache g) (record_key g l p) = Some e"
  shows "parse_drm_fdinfo_intel_xe D NDEBUG c g f p =
           and_then (usage_from_cache l e (set_type_flags (l_gpu_cycles l)
                        (set_gpu_cycles (cycles_sum (l_gpu_cycles l)) q)))
             (\<lambda>p3. and_then
                (store_sample NDEBUG l e
                   (g\<lparr>last_update_process_cache := HASH_DEL (last_update_process_cache g) e\<rparr>))
                (\<lambda>g2. Inr (True, g2, p3)))"
  unfolding parse_drm_fdinfo_intel_xe_def
  by (simp add: scan cid Let_def record_key_scanned [OF scan] hit)

lemma parse_miss:
  assumes scan: "parse_lines D (pdev g) f initial_locals p = Inr (l, q)"
      and cid: "client_id_set l"
      and miss: "HASH_FIND_CLIENT (last_update_process_cache g) (record_key g l p) = None"
  shows "parse_drm_fdinfo_intel_xe D NDEBUG c g f p =
           (if \<not> c
            then Inr (True, g, set_type_flags (l_gpu_cycles l)
                                 (set_gpu_cycles (cycles_sum (l_gpu_cycles l)) q))
            else and_then (store_sample NDEBUG l (new_cache_entry (record_key g l p)) g)
                   (\<lambda>g2. Inr (True, g2, set_type_flags (l_gpu_cycles l)
                                           (set_gpu_cycles (cycles_sum (l_gpu_cycles l)) q))))"
  unfolding parse_drm_fdinfo_intel_xe_def
  by (simp add: scan cid Let_def record_key_scanned [OF scan] miss)

subsection \<open>The check before the insertion\<close>

lemma HASH_FIND_CLIENT_Some:
  "HASH_FIND_CLIENT h k = Some e \<Longrightarrow> client_id e = k \<and> e \<in> set h"
  by (auto simp: HASH_FIND_CLIENT_def find_Some_iff)

lemma HASH_FIND_CLIENT_None:
  "(HASH_FIND_CLIENT h k = None) = (k \<notin> client_id ` set h)"
  by (auto simp: HASH_FIND_CLIENT_def find_None_iff)

lemma store_sample_debug:
  "store_sample False l e g = Inr g2 \<Longrightarrow>
     client_id e \<notin> client_id ` set (current_update_process_cache g) \<and>
     pdev g2 = pdev g \<and> last_update_process_cache g2 = last_update_process_cache g \<and>
     (\<exists>e'. client_id e' = client_id e \<and>
           current_update_process_cache g2 = e' # current_update_process_cache g)"
  by (auto simp: store_sample_def HASH_FIND_CLIENT_None HASH_ADD_CLIENT_def
      SET_INTEL_CACHE_gpu_cycles_def SET_INTEL_CACHE_total_cycles_def split: if_splits)

lemma store_sample_present:
  "client_id e \<in> client_id ` set (current_update_process_cache g) \<Longrightarrow>
     store_sample False l e g = Inl Assertion_failed"
  by (simp add: store_sample_def HASH_FIND_CLIENT_None)

lemma parse_lines_locals:
  "parse_lines D dev ls l0 p = Inr (l, q) \<Longrightarrow> \<exists>q'. parse_lines D dev ls l0 p' = Inr (l, q')"
proof (induction D dev ls l0 p arbitrary: p' rule: parse_lines.induct)
  case (1 D dev l process_info)
  then show ?case by simp
next
  case (2 D dev line rest l process_info)
  then show ?case
    by (auto simp: Let_def split: option.splits prod.splits if_splits)
qed

text \<open>
  What a call of the debug build that returns has done to the device: nothing, or it
  has taken at most one entry out of the previous generation and put one entry, with
  the key of the record, in front of the current generation, which did not have
  that key.
\<close>

lemma parse_debug_effect:
  assumes run: "parse_drm_fdinfo_intel_xe D False c g f p = Inr (ok, g', p')"
  shows "pdev g' = pdev g \<and>
         (current_update_process_cache g' = current_update_process_cache g \<or>
          (\<exists>l q e. parse_lines D (pdev g) f initial_locals p = Inr (l, q) \<and> client_id_set l \<and>
             client_id e = record_key g l p \<and>
             record_key g l p \<notin> client_id ` set (current_update_process_cache g) \<and>
             current_update_process_cache g' = e # current_update_process_cache g))"
proof (cases "parse_lines D (pdev g) f initial_locals p")
  case (Inl q)
  then show ?thesis
    using run by (simp add: parse_mismatch [OF Inl])
next
  case (Inr r)
  obtain l q where r: "r = (l, q)"
    by (cases r)
  have scan: "parse_lines D (pdev g) f initial_locals p = Inr (l, q)"
    using Inr r by simp
  show ?thesis
  proof (cases "client_id_set l")
    case False
    then show ?thesis
      using run by (simp add: parse_no_client_id [OF scan False])
  next
    case cid: True
    show ?thesis
    proof (cases "HASH_FIND_CLIENT (last_update_process_cache g) (record_key g l p)")
      case None
      show ?thesis
      proof (cases c)
        case False
        then show ?thesis
          using run by (simp add: parse_miss [OF scan cid None])
      next
        case True
        then obtain g2 where
          st: "store_sample False l (new_cache_entry (record_key g l p)) g = Inr g2"
          and g': "g' = g2"
          using run
          by (auto simp: parse_miss [OF scan cid None] and_then_def split: sum.splits)
        show ?thesis
          using store_sample_debug [OF st] scan cid
          by (auto simp: g' new_cache_entry_def)
      qed
    next
      case (Some e)
      then obtain g2 where
        st: "store_sample False l e
               (g\<lparr>last_update_process_cache := HASH_DEL (last_update_process_cache g) e\<rparr>)
             = Inr g2"
        and g': "g' = g2"
        using run
        by (auto simp: parse_hit [OF scan cid Some] and_then_def usage_from_cache_eq
            split: sum.splits)
      have key: "client_id e = record_key g l p"
        using HASH_FIND_CLIENT_Some [OF Some] by simp
      show ?thesis
        using store_sample_debug [OF st] scan cid key
        by (auto simp: g')
    qed
  qed
qed

lemma parse_debug_duplicate:
  assumes scan: "parse_lines D (pdev g) f initial_locals p = Inr (l, q)"
      and cid: "client_id_set l"
      and present: "record_key g l p \<in> client_id ` set (current_update_process_cache g)"
      and reach: "c \<or> HASH_FIND_CLIENT (last_update_process_cache g) (record_key g l p) \<noteq> None"
  shows "parse_drm_fdinfo_intel_xe D False c g f p = Inl Assertion_failed"
proof (cases "HASH_FIND_CLIENT (last_update_process_cache g) (record_key g l p)")
  case None
  then have c using reach by simp
  then show ?thesis
    using present
    by (simp add: parse_miss [OF scan cid None] and_then_def store_sample_present
        new_cache_entry_def)
next
  case (Some e)
  have key: "client_id e = record_key g l p"
    using HASH_FIND_CLIENT_Some [OF Some] by simp
  show ?thesis
    using present
    by (simp add: parse_hit [OF scan cid Some] and_then_def usage_from_cache_eq
        store_sample_present key)
qed

subsection \<open>The memory usage across records\<close>











subsection \<open>The refresh of the dynamic information\<close>

lemma refresh_query_failed:
  assumes "xe_device_query_alloc_fetch answers calloc_ok = Some (None, k)"
  shows "gpuinfo_intel_xe_refresh_dynamic_info card_fd answers calloc_ok d = Some (Inr d)"
  by (simp add: gpuinfo_intel_xe_refresh_dynamic_info_def assms)

lemma query_first_phase_fails:
  "intel_ioctl answers = Some (a1, k1) \<Longrightarrow> ret a1 \<noteq> 0 \<Longrightarrow>
     xe_device_query_alloc_fetch answers calloc_ok = Some (None, k1)"
  by (simp add: xe_device_query_alloc_fetch_def)

lemma query_allocation_fails:
  "intel_ioctl answers = Some (a1, k1) \<Longrightarrow> ret a1 = 0 \<Longrightarrow>
     xe_device_query_alloc_fetch answers False = Some (None, k1)"
  by (simp add: xe_device_query_alloc_fetch_def)

lemma query_second_phase_fails:
  "intel_ioctl answers = Some (a1, k1) \<Longrightarrow> ret a1 = 0 \<Longrightarrow>
   intel_ioctl k1 = Some (a2, k2) \<Longrightarrow> ret a2 \<noteq> 0 \<Longrightarrow>
     xe_device_query_alloc_fetch answers True = Some (None, k2)"
  by (simp add: xe_device_query_alloc_fetch_def)

text \<open>
  The region the loop takes: the first one of the device-local class, or the only one.
\<close>

lemma scan_regions_find:
  "scan_regions n regions d =
     (case find (\<lambda>mr. mem_class mr = DRM_XE_MEM_REGION_CLASS_VRAM \<or> n = 1) regions of
        None \<Rightarrow> Inr d
      | Some mr \<Rightarrow> populate_memory mr d)"
  by (induction regions) simp_all

lemma populate_memory_unused:
  "used mr = 0 \<Longrightarrow> populate_memory mr d = Inr (set_total_memory (total_size mr) d)"
  by (simp add: populate_memory_def)

lemma populate_memory_used:
  "used mr \<noteq> 0 \<Longrightarrow> total_size mr \<noteq> 0 \<Longrightarrow>
     populate_memory mr d =
       Inr (d\<lparr>total_memory := total_size mr,
              used_memory := used mr,
              free_memory := total_size mr - used mr,
              mem_util_rate := ucast (used mr * 100 div total_size mr),
              dynamic_valid := {gpuinfo_total_memory_valid, gpuinfo_used_memory_valid,
                                gpuinfo_free_memory_valid, gpuinfo_mem_util_rate_valid}
                               \<union> dynamic_valid d\<rparr>)"
  by (simp add: populate_memory_def Let_def udiv64_def set_total_memory_def set_used_memory_def
      set_free_memory_def set_mem_util_rate_def insert_commute)

lemma populate_memory_zero_total:
  "used mr \<noteq> 0 \<Longrightarrow> total_size mr = 0 \<Longrightarrow> populate_memory mr d = Inl Division_by_zero"
  by (simp add: populate_memory_def Let_def udiv64_def set_total_memory_def set_used_memory_def
      set_free_memory_def)

text \<open>
  The one reply on which the refresh does not return: a region is taken that has bytes
  in use and a total size of 0, and \<^verbatim>\<open>used_memory * 100\<close> is divided by 0.
\<close>

lemma refresh_zero_total:
  "gpuinfo_intel_xe_refresh_dynamic_info 3
     [\<lparr>ret = 0, errno = 0, answer_size = 88, answer_regions = []\<rparr>,
      \<lparr>ret = 0, errno = 0, answer_size = 88,
       answer_regions =
         [\<lparr>mem_class = DRM_XE_MEM_REGION_CLASS_SYSMEM, total_size = 0, used = 4096\<rparr>]\<rparr>]
     True no_dynamic_info
   = Some (Inl Division_by_zero)"
  by (simp add: gpuinfo_intel_xe_refresh_dynamic_info_def xe_device_query_alloc_fetch_def
      EINTR_def EAGAIN_def populate_memory_zero_total)

lemma query_succeeds:
  "intel_ioctl answers = Some (a1, k1) \<Longrightarrow> ret a1 = 0 \<Longrightarrow>
   intel_ioctl k1 = Some (a2, k2) \<Longrightarrow> ret a2 = 0 \<Longrightarrow>
     xe_device_query_alloc_fetch answers True = Some (Some (answer_regions a2), k2)"
  by (simp add: xe_device_query_alloc_fetch_def)

subsection \<open>The sum over the processes\<close>

lemma print_devices_rest:
  \<open>print_devices False ds = concat (map (\<lambda>x. '',\<newline>'' @ print_device x) ds)\<close>
  by (induction ds) simp_all

lemma print_devices_member:
  "device \<in> set ds \<Longrightarrow> \<exists>before after. print_devices b ds = before @ print_device device @ after"
proof (induction ds arbitrary: b)
  case Nil
  then show ?case
    by simp
next
  case (Cons x xs)
  show ?case
  proof (cases "device = x")
    case True
    have \<open>print_devices b (x # xs) =
            (if \<not> b then '',\<newline>'' else []) @ print_device device @ print_devices False xs\<close>
      using True by simp
    then show ?thesis
      by (intro exI)
  next
    case False
    then have "device \<in> set xs"
      using Cons.prems by simp
    then obtain before after
      where rest: "print_devices False xs = before @ print_device device @ after"
      using Cons.IH [of False] by blast
    have \<open>print_devices b (x # xs) =
            ((if \<not> b then '',\<newline>'' else []) @ print_device x @ before) @
            print_device device @ after\<close>
      by (simp add: rest)
    then show ?thesis
      by (intro exI)
  qed
qed

lemma fold_usage:
  "fold (\<lambda>p t. if gpuinfo_process_gpu_usage_valid \<in> valid p then t + gpu_usage p else t) ps a
     = a + sum_list (map gpu_usage
                      (filter (\<lambda>p. gpuinfo_process_gpu_usage_valid \<in> valid p) ps))"
  by (induction ps arbitrary: a) (simp_all add: add.assoc)

lemma unat_sum_list:
  "sum_list (map unat ws) < 2 ^ 32 \<Longrightarrow> unat (sum_list ws :: uint32) = sum_list (map unat ws)"
proof (induction ws)
  case Nil
  then show ?case by simp
next
  case (Cons w ws)
  then have small: "sum_list (map unat ws) < 2 ^ 32"
    by simp
  have "unat (w + sum_list ws) = (unat w + unat (sum_list ws)) mod 2 ^ 32"
    by (simp add: unat_word_ariths)
  also have "\<dots> = (unat w + sum_list (map unat ws)) mod 2 ^ 32"
    by (simp add: Cons.IH [OF small])
  also have "\<dots> = unat w + sum_list (map unat ws)"
    using Cons.prems by simp
  finally show ?case
    by simp
qed

lemma total_usage_min:
  "total_usage ps =
     min 100 (sum_list (map gpu_usage
                         (filter (\<lambda>p. gpuinfo_process_gpu_usage_valid \<in> valid p) ps)))"
  by (auto simp: total_usage_def fold_usage Let_def min_def)

subsection \<open>The main loop\<close>

lemma samples_loop_body:
  "samples (fst (loop_body dadd it t)) = (real_of_int (update_interval it) \<le> t)"
  by (simp add: samples_def loop_body_def Let_def)

lemma loop_body_sampling:
  "real_of_int (update_interval it) \<le> t \<Longrightarrow>
     snd (loop_body dadd it t) = dadd 0 (slept it) \<and>
     Timeout (update_interval it) \<in> set (fst (loop_body dadd it t))"
  by (simp add: loop_body_def Let_def)

lemma loop_body_waiting:
  "t < real_of_int (update_interval it) \<Longrightarrow>
     snd (loop_body dadd it t) = dadd t (slept it) \<and>
     Timeout (update_interval it - int_of_double t) \<in> set (fst (loop_body dadd it t)) \<and>
     Gpuinfo_refresh_dynamic_info \<notin> set (fst (loop_body dadd it t)) \<and>
     Gpuinfo_refresh_processes \<notin> set (fst (loop_body dadd it t)) \<and>
     Gpuinfo_utilisation_rate \<notin> set (fst (loop_body dadd it t)) \<and>
     Save_current_data_to_ring \<notin> set (fst (loop_body dadd it t))"
  by (simp add: loop_body_def Let_def)

lemma length_main_loop: "length (main_loop dadd its t) = length its"
  by (induction its arbitrary: t) simp_all

lemma main_loop_not_Nil: "main_loop dadd (its @ [it]) t \<noteq> []"
  using length_main_loop [of dadd "its @ [it]" t] by auto

lemma main_loop_waiting:
  "\<forall>c\<in>set (butlast (main_loop dadd (between @ [it]) t)). \<not> samples c \<Longrightarrow>
     last (main_loop dadd (between @ [it]) t) =
       fst (loop_body dadd it (fold (\<lambda>i t. dadd t (slept i)) between t))"
proof (induction between arbitrary: t)
  case Nil
  then show ?case by simp
next
  case (Cons b bs)
  let ?t = "snd (loop_body dadd b t)"
  have ne: "main_loop dadd (bs @ [it]) ?t \<noteq> []"
    by (rule main_loop_not_Nil)
  have run: "main_loop dadd ((b # bs) @ [it]) t =
               fst (loop_body dadd b t) # main_loop dadd (bs @ [it]) ?t"
    by simp
  have "\<not> samples (fst (loop_body dadd b t))"
    and rest: "\<forall>c\<in>set (butlast (main_loop dadd (bs @ [it]) ?t)). \<not> samples c"
    using Cons.prems ne unfolding run by simp_all
  then have "t < real_of_int (update_interval b)"
    by (simp add: samples_loop_body)
  then have t: "?t = dadd t (slept b)"
    using loop_body_waiting by blast
  have "last (main_loop dadd ((b # bs) @ [it]) t) = last (main_loop dadd (bs @ [it]) ?t)"
    unfolding run using ne by simp
  also have "\<dots> = fst (loop_body dadd it (fold (\<lambda>i t. dadd t (slept i)) bs ?t))"
    by (rule Cons.IH [OF rest])
  finally show ?case
    by (simp add: t)
qed

section \<open>The claims\<close>

text \<open>
  C1. For a record whose key is found in the previous generation, every engine
  contributes \<open>pct\<close>: \<open>busy_delta * 100 / total_delta\<close>, truncated, when its
  \<open>total_delta\<close> is positive, and nothing when it is 0; no division by zero occurs.
  Render, compute, video decode, video encode and copy add to the overall utilisation,
  video decode also to the decode and video encode also to the encode utilisation. The
  call returns with these sums unless the debug build's assertion stops it. The
  arithmetic is that of the code's unsigned types; for counters that have advanced
  and a product and a quotient that fit their types, the percentage is the quotient of
  the numbers.
\<close>

theorem engine_usage_added:
  assumes scan: "parse_lines D (pdev g) f initial_locals p = Inr (l, q)"
      and cid: "client_id_set l"
      and hit: "HASH_FIND_CLIENT (last_update_process_cache g) (record_key g l p) = Some e"
  shows "parse_drm_fdinfo_intel_xe D NDEBUG c g f p \<noteq> Inl Division_by_zero \<and>
         (NDEBUG \<or> HASH_FIND_CLIENT (current_update_process_cache g) (client_id e) = None \<longrightarrow>
          (\<exists>g' p'. parse_drm_fdinfo_intel_xe D NDEBUG c g f p = Inr (True, g', p') \<and>
             gpu_usage p' =
               pct rcs l e + pct ccs l e + pct vcs l e + pct vecs l e + pct bcs l e \<and>
             decode_usage p' = pct vcs l e \<and>
             encode_usage p' = pct vecs l e)) \<and>
         (\<forall>engine. total_delta engine l e = 0 \<longrightarrow> pct engine l e = 0) \<and>
         (\<forall>engine. total_delta engine l e \<noteq> 0 \<longrightarrow>
            pct engine l e = ucast (busy_delta engine l e * 100 div total_delta engine l e)) \<and>
         (\<forall>engine.
            engine (cache_gpu_cycles e) \<le> engine (l_gpu_cycles l) \<and>
            engine (cache_total_cycles e) < engine (l_total_cycles l) \<and>
            (unat (engine (l_gpu_cycles l)) - unat (engine (cache_gpu_cycles e))) * 100 < 2 ^ 64 \<and>
            (unat (engine (l_gpu_cycles l)) - unat (engine (cache_gpu_cycles e))) * 100
              div (unat (engine (l_total_cycles l)) - unat (engine (cache_total_cycles e)))
              < 2 ^ 32 \<longrightarrow>
            unat (pct engine l e) =
              (unat (engine (l_gpu_cycles l)) - unat (engine (cache_gpu_cycles e))) * 100
                div (unat (engine (l_total_cycles l)) - unat (engine (cache_total_cycles e))))"
proof -
  have run: "parse_drm_fdinfo_intel_xe D NDEBUG c g f p \<noteq> Inl Division_by_zero \<and>
         (NDEBUG \<or> HASH_FIND_CLIENT (current_update_process_cache g) (client_id e) = None \<longrightarrow>
          (\<exists>g' p'. parse_drm_fdinfo_intel_xe D NDEBUG c g f p = Inr (True, g', p') \<and>
             gpu_usage p' =
               pct rcs l e + pct ccs l e + pct vcs l e + pct vecs l e + pct bcs l e \<and>
             decode_usage p' = pct vcs l e \<and>
             encode_usage p' = pct vecs l e))"
    by (auto simp: parse_hit [OF scan cid hit] usage_from_cache_eq and_then_def
        store_sample_def)
  have zero: "\<forall>engine. total_delta engine l e = 0 \<longrightarrow> pct engine l e = 0"
    by (simp add: pct_def)
  have pos: "\<forall>engine. total_delta engine l e \<noteq> 0 \<longrightarrow>
               pct engine l e = ucast (busy_delta engine l e * 100 div total_delta engine l e)"
    by (simp add: pct_def word_gt0_iff)
  show ?thesis
    using run zero pos pct_exact [of _ e l] by blast
qed

theorem engine_usage_added_witness:
  "parse_lines key_value_decls (pdev device_cycle_2) sample_2 initial_locals fresh_process =
     Inr (locals_2, scanned_process) \<and>
   client_id_set locals_2 \<and>
   HASH_FIND_CLIENT (last_update_process_cache device_cycle_2)
     (record_key device_cycle_2 locals_2 fresh_process) = Some entry_1 \<and>
   HASH_FIND_CLIENT (current_update_process_cache device_cycle_2) (client_id entry_1) = None \<and>
   total_delta rcs locals_2 entry_1 = 500 \<and>
   total_delta vcs locals_2 entry_1 = 0 \<and>
   rcs (cache_gpu_cycles entry_1) \<le> rcs (l_gpu_cycles locals_2) \<and>
   rcs (cache_total_cycles entry_1) < rcs (l_total_cycles locals_2) \<and>
   unat (pct rcs locals_2 entry_1) = (1500 - 1000) * 100 div (10500 - 10000) \<and>
   pct rcs locals_2 entry_1 = 100 \<and>
   pct vcs locals_2 entry_1 = 0 \<and>
   parse_drm_fdinfo_intel_xe key_value_decls False True device_cycle_2 sample_2 fresh_process
     \<noteq> Inl Division_by_zero \<and>
   (\<exists>g' p'. parse_drm_fdinfo_intel_xe key_value_decls False True device_cycle_2 sample_2
               fresh_process = Inr (True, g', p') \<and>
            gpu_usage p' = 100 \<and> decode_usage p' = 0 \<and> encode_usage p' = 0)"
proof -
  have scan: "parse_lines key_value_decls (pdev device_cycle_2) sample_2 initial_locals
                fresh_process = Inr (locals_2, scanned_process)"
    by (simp add: device_cycle_2_def scan_sample_2)
  have cid: "client_id_set locals_2"
    by (simp add: locals_2_def)
  have hit: "HASH_FIND_CLIENT (last_update_process_cache device_cycle_2)
               (record_key device_cycle_2 locals_2 fresh_process) = Some entry_1"
    by (simp add: device_cycle_2_def record_key_def locals_2_def fresh_process_def find_entry_1)
  have fresh: "HASH_FIND_CLIENT (current_update_process_cache device_cycle_2)
                 (client_id entry_1) = None"
    by (simp add: device_cycle_2_def HASH_FIND_CLIENT_def)
  have deltas: "total_delta rcs locals_2 entry_1 = 500" "total_delta vcs locals_2 entry_1 = 0"
    "total_delta ccs locals_2 entry_1 = 0" "total_delta vecs locals_2 entry_1 = 0"
    "total_delta bcs locals_2 entry_1 = 0" "busy_delta rcs locals_2 entry_1 = 500"
    by (simp_all add: busy_delta_def total_delta_def locals_2_def entry_1_def)
  have counters: "rcs (cache_gpu_cycles entry_1) \<le> rcs (l_gpu_cycles locals_2)"
    "rcs (cache_total_cycles entry_1) < rcs (l_total_cycles locals_2)"
    "unat (rcs (l_gpu_cycles locals_2)) = 1500" "unat (rcs (cache_gpu_cycles entry_1)) = 1000"
    "unat (rcs (l_total_cycles locals_2)) = 10500"
    "unat (rcs (cache_total_cycles entry_1)) = 10000"
    by (simp_all add: locals_2_def entry_1_def)
  note inst = engine_usage_added [OF scan cid hit, of False True]
  have run: "parse_drm_fdinfo_intel_xe key_value_decls False True device_cycle_2 sample_2
               fresh_process \<noteq> Inl Division_by_zero"
    and sums: "\<exists>g' p'. parse_drm_fdinfo_intel_xe key_value_decls False True device_cycle_2
                 sample_2 fresh_process = Inr (True, g', p') \<and>
               gpu_usage p' = pct rcs locals_2 entry_1 + pct ccs locals_2 entry_1 +
                 pct vcs locals_2 entry_1 + pct vecs locals_2 entry_1 +
                 pct bcs locals_2 entry_1 \<and>
               decode_usage p' = pct vcs locals_2 entry_1 \<and>
               encode_usage p' = pct vecs locals_2 entry_1"
    and zero: "\<forall>engine. total_delta engine locals_2 entry_1 = 0 \<longrightarrow> pct engine locals_2 entry_1 = 0"
    and pos: "\<forall>engine. total_delta engine locals_2 entry_1 \<noteq> 0 \<longrightarrow>
                pct engine locals_2 entry_1 =
                  ucast (busy_delta engine locals_2 entry_1 * 100
                           div total_delta engine locals_2 entry_1)"
    and exact: "\<forall>engine.
            engine (cache_gpu_cycles entry_1) \<le> engine (l_gpu_cycles locals_2) \<and>
            engine (cache_total_cycles entry_1) < engine (l_total_cycles locals_2) \<and>
            (unat (engine (l_gpu_cycles locals_2)) - unat (engine (cache_gpu_cycles entry_1)))
               * 100 < 2 ^ 64 \<and>
            (unat (engine (l_gpu_cycles locals_2)) - unat (engine (cache_gpu_cycles entry_1)))
               * 100
              div (unat (engine (l_total_cycles locals_2))
                   - unat (engine (cache_total_cycles entry_1)))
              < 2 ^ 32 \<longrightarrow>
            unat (pct engine locals_2 entry_1) =
              (unat (engine (l_gpu_cycles locals_2)) - unat (engine (cache_gpu_cycles entry_1)))
                * 100
                div (unat (engine (l_total_cycles locals_2))
                     - unat (engine (cache_total_cycles entry_1)))"
    using inst fresh by simp_all
  have z: "pct vcs locals_2 entry_1 = 0" "pct ccs locals_2 entry_1 = 0"
    "pct vecs locals_2 entry_1 = 0" "pct bcs locals_2 entry_1 = 0"
    using zero deltas by simp_all
  have r: "pct rcs locals_2 entry_1 = 100"
    using pos [rule_format, of rcs] deltas by simp
  have x: "unat (pct rcs locals_2 entry_1) = (1500 - 1000) * 100 div (10500 - 10000)"
    using exact [rule_format, of rcs] counters by simp
  show ?thesis
    using scan cid hit fresh deltas counters run sums z r x by simp
qed

text \<open>
  C2. In a debug build (\<^verbatim>\<open>NDEBUG\<close> not defined) a call that returns has added at most
  one entry to the current generation, and only under a key the generation did not
  hold, so the keys of the current generation stay pairwise distinct; and when a call
  has added the entry of a record, a second call for the same record and process in
  the same cycle adds nothing: the assertion stops it. Only a second call whose
  \<^verbatim>\<open>calloc\<close> fails can return instead, and it leaves the device as it is.
\<close>

theorem key_inserted_once:
  assumes run: "parse_drm_fdinfo_intel_xe D False c g f p = Inr (ok, g', p')"
  shows "(distinct (map client_id (current_update_process_cache g)) \<longrightarrow>
            distinct (map client_id (current_update_process_cache g'))) \<and>
         (current_update_process_cache g' \<noteq> current_update_process_cache g \<and> pid p2 = pid p \<longrightarrow>
            parse_drm_fdinfo_intel_xe D False True g' f p2 = Inl Assertion_failed \<and>
            (parse_drm_fdinfo_intel_xe D False False g' f p2 = Inl Assertion_failed \<or>
             (\<exists>p''. parse_drm_fdinfo_intel_xe D False False g' f p2 = Inr (True, g', p''))))"
proof -
  note eff = parse_debug_effect [OF run]
  have dev: "pdev g' = pdev g"
    using eff by simp
  have first: "distinct (map client_id (current_update_process_cache g)) \<longrightarrow>
                 distinct (map client_id (current_update_process_cache g'))"
    using eff by auto
  have second: "parse_drm_fdinfo_intel_xe D False True g' f p2 = Inl Assertion_failed \<and>
            (parse_drm_fdinfo_intel_xe D False False g' f p2 = Inl Assertion_failed \<or>
             (\<exists>p''. parse_drm_fdinfo_intel_xe D False False g' f p2 = Inr (True, g', p'')))"
    if changed: "current_update_process_cache g' \<noteq> current_update_process_cache g"
      and same: "pid p2 = pid p"
  proof -
    obtain l q e where scan: "parse_lines D (pdev g) f initial_locals p = Inr (l, q)"
      and cid: "client_id_set l"
      and key: "client_id e = record_key g l p"
      and cur: "current_update_process_cache g' = e # current_update_process_cache g"
      using eff changed by auto
    obtain q2 where scan2: "parse_lines D (pdev g') f initial_locals p2 = Inr (l, q2)"
      using parse_lines_locals [OF scan, of p2] dev by auto
    have key2: "record_key g' l p2 = record_key g l p"
      by (simp add: record_key_def dev same)
    have present: "record_key g' l p2 \<in> client_id ` set (current_update_process_cache g')"
      by (simp add: key2 cur key)
    have with_calloc: "parse_drm_fdinfo_intel_xe D False True g' f p2 = Inl Assertion_failed"
      by (rule parse_debug_duplicate [OF scan2 cid present]) simp
    have without: "parse_drm_fdinfo_intel_xe D False False g' f p2 = Inl Assertion_failed \<or>
             (\<exists>p''. parse_drm_fdinfo_intel_xe D False False g' f p2 = Inr (True, g', p''))"
    proof (cases "HASH_FIND_CLIENT (last_update_process_cache g') (record_key g' l p2)")
      case None
      then show ?thesis
        by (simp add: parse_miss [OF scan2 cid None])
    next
      case (Some e2)
      then have "parse_drm_fdinfo_intel_xe D False False g' f p2 = Inl Assertion_failed"
        by (intro parse_debug_duplicate [OF scan2 cid present]) simp
      then show ?thesis
        by simp
    qed
    show ?thesis
      using with_calloc without by simp
  qed
  show ?thesis
    using first second by blast
qed

theorem key_inserted_once_witness:
  "parse_drm_fdinfo_intel_xe key_value_decls False True device_cycle_2 sample_2 fresh_process =
     Inr (True,
          \<lparr>pdev = example_pdev, last_update_process_cache = [],
           current_update_process_cache =
             [entry_1\<lparr>cache_gpu_cycles := l_gpu_cycles locals_2,
                       cache_total_cycles := l_total_cycles locals_2\<rparr>]\<rparr>,
          scanned_process\<lparr>type := 1, gpu_cycles := 1500, gpu_usage := 100,
            valid := {gpuinfo_process_encode_usage_valid, gpuinfo_process_decode_usage_valid,
                      gpuinfo_process_gpu_usage_valid, gpuinfo_process_gpu_cycles_valid,
                      gpuinfo_process_gpu_memory_usage_valid}\<rparr>) \<and>
   distinct (map client_id (current_update_process_cache device_cycle_2)) \<and>
   distinct (map client_id
     [entry_1\<lparr>cache_gpu_cycles := l_gpu_cycles locals_2,
               cache_total_cycles := l_total_cycles locals_2\<rparr>]) \<and>
   [entry_1\<lparr>cache_gpu_cycles := l_gpu_cycles locals_2,
             cache_total_cycles := l_total_cycles locals_2\<rparr>]
     \<noteq> current_update_process_cache device_cycle_2 \<and>
   pid fresh_process = pid fresh_process \<and>
   parse_drm_fdinfo_intel_xe key_value_decls False True
     \<lparr>pdev = example_pdev, last_update_process_cache = [],
      current_update_process_cache =
        [entry_1\<lparr>cache_gpu_cycles := l_gpu_cycles locals_2,
                  cache_total_cycles := l_total_cycles locals_2\<rparr>]\<rparr>
     sample_2 fresh_process = Inl Assertion_failed"
proof -
  have scan: "parse_lines key_value_decls (pdev device_cycle_2) sample_2 initial_locals
                fresh_process = Inr (locals_2, scanned_process)"
    by (simp add: device_cycle_2_def scan_sample_2)
  have cid: "client_id_set locals_2"
    by (simp add: locals_2_def)
  have hit: "HASH_FIND_CLIENT (last_update_process_cache device_cycle_2)
               (record_key device_cycle_2 locals_2 fresh_process) = Some entry_1"
    by (simp add: device_cycle_2_def record_key_def locals_2_def fresh_process_def find_entry_1)
  have pcts: "pct rcs locals_2 entry_1 = 100" "pct ccs locals_2 entry_1 = 0"
    "pct vcs locals_2 entry_1 = 0" "pct vecs locals_2 entry_1 = 0" "pct bcs locals_2 entry_1 = 0"
    by (simp_all add: pct_def busy_delta_def total_delta_def locals_2_def entry_1_def)
  have run: "parse_drm_fdinfo_intel_xe key_value_decls False True device_cycle_2 sample_2
               fresh_process =
     Inr (True,
          \<lparr>pdev = example_pdev, last_update_process_cache = [],
           current_update_process_cache =
             [entry_1\<lparr>cache_gpu_cycles := l_gpu_cycles locals_2,
                       cache_total_cycles := l_total_cycles locals_2\<rparr>]\<rparr>,
          scanned_process\<lparr>type := 1, gpu_cycles := 1500, gpu_usage := 100,
            valid := {gpuinfo_process_encode_usage_valid, gpuinfo_process_decode_usage_valid,
                      gpuinfo_process_gpu_usage_valid, gpuinfo_process_gpu_cycles_valid,
                      gpuinfo_process_gpu_memory_usage_valid}\<rparr>)"
    unfolding parse_hit [OF scan cid hit] usage_from_cache_eq pcts
    by (simp add: and_then_def store_sample_def device_cycle_2_def HASH_FIND_CLIENT_def
        HASH_DEL_def HASH_ADD_CLIENT_def SET_INTEL_CACHE_gpu_cycles_def
        SET_INTEL_CACHE_total_cycles_def entry_1_def set_type_flags_def set_gpu_cycles_def
        cycles_sum_eq locals_2_def scanned_process_def fresh_process_def
        gpu_process_unknown_def gpu_process_graphical_def gpu_process_compute_def insert_commute)
  show ?thesis
    using key_inserted_once [OF run, of fresh_process] run
    by (simp add: device_cycle_2_def)
qed

text \<open>
  C3. When the first call of the query fails, when the allocation fails, or when the
  second call fails, the refresh returns and the dynamic information is what it was.
  When both calls and the allocation succeed and the loop takes a region (the first
  of the device-local class, or the only region), the refresh returns with the total
  memory valid and equal to the region's size; if the region has bytes in use, the
  used memory, the free memory (total less used) and the utilisation
  (\<open>used * 100 / total\<close>) are valid as well, and if it has none, these three fields and
  their flags are what they were. The region is one the kernel reports: with bytes in
  use it has a size.
\<close>

theorem refresh_populates_memory:
  "(intel_ioctl answers = Some (a1, k1) \<and> ret a1 \<noteq> 0 \<longrightarrow>
      gpuinfo_intel_xe_refresh_dynamic_info card_fd answers calloc_ok d = Some (Inr d)) \<and>
   (intel_ioctl answers = Some (a1, k1) \<and> ret a1 = 0 \<and> \<not> calloc_ok \<longrightarrow>
      gpuinfo_intel_xe_refresh_dynamic_info card_fd answers calloc_ok d = Some (Inr d)) \<and>
   (intel_ioctl answers = Some (a1, k1) \<and> ret a1 = 0 \<and> calloc_ok \<and>
    intel_ioctl k1 = Some (a2, k2) \<and> ret a2 \<noteq> 0 \<longrightarrow>
      gpuinfo_intel_xe_refresh_dynamic_info card_fd answers calloc_ok d = Some (Inr d)) \<and>
   (card_fd \<noteq> 0 \<and> intel_ioctl answers = Some (a1, k1) \<and> ret a1 = 0 \<and> calloc_ok \<and>
    intel_ioctl k1 = Some (a2, k2) \<and> ret a2 = 0 \<and>
    find (\<lambda>mr. mem_class mr = DRM_XE_MEM_REGION_CLASS_VRAM \<or> length (answer_regions a2) = 1)
      (answer_regions a2) = Some mr \<and>
    (used mr = 0 \<or> total_size mr \<noteq> 0) \<longrightarrow>
      (\<exists>d'. gpuinfo_intel_xe_refresh_dynamic_info card_fd answers calloc_ok d = Some (Inr d') \<and>
            gpuinfo_total_memory_valid \<in> dynamic_valid d' \<and>
            total_memory d' = total_size mr \<and>
            (used mr \<noteq> 0 \<longrightarrow>
               gpuinfo_used_memory_valid \<in> dynamic_valid d' \<and>
               gpuinfo_free_memory_valid \<in> dynamic_valid d' \<and>
               gpuinfo_mem_util_rate_valid \<in> dynamic_valid d' \<and>
               used_memory d' = used mr \<and>
               free_memory d' = total_size mr - used mr \<and>
               mem_util_rate d' = ucast (used mr * 100 div total_size mr)) \<and>
            (used mr = 0 \<longrightarrow>
               d' = set_total_memory (total_size mr) d \<and>
               used_memory d' = used_memory d \<and> free_memory d' = free_memory d \<and>
               mem_util_rate d' = mem_util_rate d \<and>
               (gpuinfo_used_memory_valid \<in> dynamic_valid d') =
                 (gpuinfo_used_memory_valid \<in> dynamic_valid d) \<and>
               (gpuinfo_free_memory_valid \<in> dynamic_valid d') =
                 (gpuinfo_free_memory_valid \<in> dynamic_valid d) \<and>
               (gpuinfo_mem_util_rate_valid \<in> dynamic_valid d') =
                 (gpuinfo_mem_util_rate_valid \<in> dynamic_valid d))))"
proof -
  have first: "gpuinfo_intel_xe_refresh_dynamic_info card_fd answers calloc_ok d = Some (Inr d)"
    if "intel_ioctl answers = Some (a1, k1)" "ret a1 \<noteq> 0"
    using that by (intro refresh_query_failed query_first_phase_fails)
  have alloc: "gpuinfo_intel_xe_refresh_dynamic_info card_fd answers calloc_ok d = Some (Inr d)"
    if "intel_ioctl answers = Some (a1, k1)" "ret a1 = 0" "\<not> calloc_ok"
    using that refresh_query_failed [OF query_allocation_fails, of answers a1 k1 card_fd d]
    by simp
  have second: "gpuinfo_intel_xe_refresh_dynamic_info card_fd answers calloc_ok d = Some (Inr d)"
    if "intel_ioctl answers = Some (a1, k1)" "ret a1 = 0" "calloc_ok"
      "intel_ioctl k1 = Some (a2, k2)" "ret a2 \<noteq> 0"
    using that
      refresh_query_failed [OF query_second_phase_fails, of answers a1 k1 a2 k2 card_fd d]
    by simp
  have taken: "\<exists>d'. gpuinfo_intel_xe_refresh_dynamic_info card_fd answers calloc_ok d
                       = Some (Inr d') \<and>
            gpuinfo_total_memory_valid \<in> dynamic_valid d' \<and>
            total_memory d' = total_size mr \<and>
            (used mr \<noteq> 0 \<longrightarrow>
               gpuinfo_used_memory_valid \<in> dynamic_valid d' \<and>
               gpuinfo_free_memory_valid \<in> dynamic_valid d' \<and>
               gpuinfo_mem_util_rate_valid \<in> dynamic_valid d' \<and>
               used_memory d' = used mr \<and>
               free_memory d' = total_size mr - used mr \<and>
               mem_util_rate d' = ucast (used mr * 100 div total_size mr)) \<and>
            (used mr = 0 \<longrightarrow>
               d' = set_total_memory (total_size mr) d \<and>
               used_memory d' = used_memory d \<and> free_memory d' = free_memory d \<and>
               mem_util_rate d' = mem_util_rate d \<and>
               (gpuinfo_used_memory_valid \<in> dynamic_valid d') =
                 (gpuinfo_used_memory_valid \<in> dynamic_valid d) \<and>
               (gpuinfo_free_memory_valid \<in> dynamic_valid d') =
                 (gpuinfo_free_memory_valid \<in> dynamic_valid d) \<and>
               (gpuinfo_mem_util_rate_valid \<in> dynamic_valid d') =
                 (gpuinfo_mem_util_rate_valid \<in> dynamic_valid d))"
    if fd: "card_fd \<noteq> 0" and q1: "intel_ioctl answers = Some (a1, k1)" "ret a1 = 0"
      and ok: "calloc_ok" and q2: "intel_ioctl k1 = Some (a2, k2)" "ret a2 = 0"
      and sel: "find (\<lambda>mr. mem_class mr = DRM_XE_MEM_REGION_CLASS_VRAM \<or>
                           length (answer_regions a2) = 1) (answer_regions a2) = Some mr"
      and sized: "used mr = 0 \<or> total_size mr \<noteq> 0"
  proof -
    have fetch: "xe_device_query_alloc_fetch answers calloc_ok
                   = Some (Some (answer_regions a2), k2)"
      using query_succeeds [OF q1 q2] ok by simp
    have run: "gpuinfo_intel_xe_refresh_dynamic_info card_fd answers calloc_ok d
                 = Some (populate_memory mr d)"
      using sel
      by (simp add: gpuinfo_intel_xe_refresh_dynamic_info_def fd fetch scan_regions_find)
    show ?thesis
    proof (cases "used mr = 0")
      case True
      then show ?thesis
        by (simp add: run populate_memory_unused set_total_memory_def)
    next
      case False
      then have "total_size mr \<noteq> 0"
        using sized by simp
      then show ?thesis
        using False by (simp add: run populate_memory_used)
    qed
  qed
  show ?thesis
    using first alloc second taken by blast
qed

theorem refresh_populates_memory_witness:
  "intel_ioctl [interrupted_answer, refused_answer] = Some (refused_answer, []) \<and>
   ret refused_answer \<noteq> 0 \<and>
   gpuinfo_intel_xe_refresh_dynamic_info 3 [interrupted_answer, refused_answer] True
     no_dynamic_info = Some (Inr no_dynamic_info) \<and>
   intel_ioctl [size_answer, regions_answer] = Some (size_answer, [regions_answer]) \<and>
   ret size_answer = 0 \<and>
   gpuinfo_intel_xe_refresh_dynamic_info 3 [size_answer, regions_answer] False
     no_dynamic_info = Some (Inr no_dynamic_info) \<and>
   intel_ioctl [size_answer, refused_answer] = Some (size_answer, [refused_answer]) \<and>
   intel_ioctl [refused_answer] = Some (refused_answer, []) \<and>
   gpuinfo_intel_xe_refresh_dynamic_info 3 [size_answer, refused_answer] True
     no_dynamic_info = Some (Inr no_dynamic_info) \<and>
   intel_ioctl [regions_answer] = Some (regions_answer, []) \<and>
   ret regions_answer = 0 \<and>
   find (\<lambda>mr. mem_class mr = DRM_XE_MEM_REGION_CLASS_VRAM \<or>
               length (answer_regions regions_answer) = 1) (answer_regions regions_answer)
     = Some vram_region \<and>
   used vram_region \<noteq> 0 \<and> total_size vram_region \<noteq> 0 \<and>
   (\<exists>d'. gpuinfo_intel_xe_refresh_dynamic_info 3 [size_answer, regions_answer] True
            no_dynamic_info = Some (Inr d') \<and>
         dynamic_valid d' =
           {gpuinfo_total_memory_valid, gpuinfo_used_memory_valid, gpuinfo_free_memory_valid,
            gpuinfo_mem_util_rate_valid} \<and>
         total_memory d' = 8589934592 \<and> used_memory d' = 2147483648 \<and>
         free_memory d' = 6442450944 \<and> mem_util_rate d' = 25)"
proof -
  have i1: "intel_ioctl [interrupted_answer, refused_answer] = Some (refused_answer, [])"
    and r1: "ret refused_answer \<noteq> 0"
    and i2: "intel_ioctl [size_answer, regions_answer] = Some (size_answer, [regions_answer])"
    and r2: "ret size_answer = 0"
    and i3: "intel_ioctl [size_answer, refused_answer] = Some (size_answer, [refused_answer])"
    and i4: "intel_ioctl [refused_answer] = Some (refused_answer, [])"
    and i5: "intel_ioctl [regions_answer] = Some (regions_answer, [])"
    and r5: "ret regions_answer = 0"
    by (simp_all add: interrupted_answer_def refused_answer_def size_answer_def
        regions_answer_def EINTR_def EAGAIN_def)
  have sel: "find (\<lambda>mr. mem_class mr = DRM_XE_MEM_REGION_CLASS_VRAM \<or>
               length (answer_regions regions_answer) = 1) (answer_regions regions_answer)
     = Some vram_region"
    by (simp add: regions_answer_def sysmem_region_def vram_region_def
        DRM_XE_MEM_REGION_CLASS_VRAM_def DRM_XE_MEM_REGION_CLASS_SYSMEM_def)
  have sized: "used vram_region \<noteq> 0" "total_size vram_region \<noteq> 0"
    by (simp_all add: vram_region_def)
  have a: "gpuinfo_intel_xe_refresh_dynamic_info 3 [interrupted_answer, refused_answer] True
     no_dynamic_info = Some (Inr no_dynamic_info)"
    using refresh_populates_memory
      [of "[interrupted_answer, refused_answer]" refused_answer "[]" 3 True no_dynamic_info]
      i1 r1 by simp
  have b: "gpuinfo_intel_xe_refresh_dynamic_info 3 [size_answer, regions_answer] False
     no_dynamic_info = Some (Inr no_dynamic_info)"
    using refresh_populates_memory
      [of "[size_answer, regions_answer]" size_answer "[regions_answer]" 3 False
          no_dynamic_info]
      i2 r2 by simp
  have c: "gpuinfo_intel_xe_refresh_dynamic_info 3 [size_answer, refused_answer] True
     no_dynamic_info = Some (Inr no_dynamic_info)"
    using refresh_populates_memory
      [of "[size_answer, refused_answer]" size_answer "[refused_answer]" 3 True
          no_dynamic_info refused_answer "[]"]
      i3 r2 i4 r1 by simp
  obtain d' where run: "gpuinfo_intel_xe_refresh_dynamic_info 3 [size_answer, regions_answer]
                          True no_dynamic_info = Some (Inr d')"
    and tv: "gpuinfo_total_memory_valid \<in> dynamic_valid d'"
    and t: "total_memory d' = total_size vram_region"
    and u: "used_memory d' = used vram_region"
    and f: "free_memory d' = total_size vram_region - used vram_region"
    and m: "mem_util_rate d' = ucast (used vram_region * 100 div total_size vram_region)"
    using refresh_populates_memory
      [of "[size_answer, regions_answer]" size_answer "[regions_answer]" 3 True
          no_dynamic_info regions_answer "[]" vram_region]
      i2 r2 i5 r5 sel sized by auto
  have explicit: "gpuinfo_intel_xe_refresh_dynamic_info 3 [size_answer, regions_answer] True
            no_dynamic_info = Some (populate_memory vram_region no_dynamic_info)"
    using i2 r2 i5 r5 sel
    by (simp add: gpuinfo_intel_xe_refresh_dynamic_info_def xe_device_query_alloc_fetch_def
        scan_regions_find)
  have flags: "dynamic_valid d' =
           {gpuinfo_total_memory_valid, gpuinfo_used_memory_valid, gpuinfo_free_memory_valid,
            gpuinfo_mem_util_rate_valid}"
    using run sized unfolding explicit
    by (auto simp: populate_memory_used no_dynamic_info_def)
  have vals: "total_memory d' = 8589934592" "used_memory d' = 2147483648"
    "free_memory d' = 6442450944" "mem_util_rate d' = 25"
    using t u f m by (simp_all add: vram_region_def)
  show ?thesis
    using i1 r1 a i2 r2 b i3 i4 c i5 r5 sel sized run flags vals by simp
qed

text \<open>
  C4. A device for which the kernel reports 8 GiB in total and 0 bytes used (what it
  does without \<^verbatim>\<open>CAP_PERFMON\<close>): the refresh populates the total memory alone, and
  the snapshot then prints the used and the free memory as numbers although their
  flags are not set. Only the flag of the total memory is tested before the three
  fields are printed.
\<close>

theorem snapshot_prints_unset_memory:
  \<open>gpuinfo_intel_xe_refresh_dynamic_info 3
     [\<lparr>ret = 0, errno = 0, answer_size = 88, answer_regions = []\<rparr>,
      \<lparr>ret = 0, errno = 0, answer_size = 88,
       answer_regions =
         [\<lparr>mem_class = DRM_XE_MEM_REGION_CLASS_VRAM, total_size = 8589934592, used = 0\<rparr>]\<rparr>]
     True no_dynamic_info
   = Some (Inr (no_dynamic_info\<lparr>total_memory := 8589934592,
                  dynamic_valid := {gpuinfo_total_memory_valid}\<rparr>)) \<and>
   gpuinfo_used_memory_valid \<notin>
     dynamic_valid (no_dynamic_info\<lparr>total_memory := 8589934592,
                      dynamic_valid := {gpuinfo_total_memory_valid}\<rparr>) \<and>
   gpuinfo_free_memory_valid \<notin>
     dynamic_valid (no_dynamic_info\<lparr>total_memory := 8589934592,
                      dynamic_valid := {gpuinfo_total_memory_valid}\<rparr>) \<and>
   print_memory_details (no_dynamic_info\<lparr>total_memory := 8589934592,
                           dynamic_valid := {gpuinfo_total_memory_valid}\<rparr>) =
     ''   "mem_total": "8589934592",\<newline>'' @
     ''   "mem_used": "0",\<newline>'' @
     ''   "mem_free": "0"\<newline>''\<close>
  by (simp add: gpuinfo_intel_xe_refresh_dynamic_info_def xe_device_query_alloc_fetch_def
      EINTR_def EAGAIN_def populate_memory_unused set_total_memory_def no_dynamic_info_def
      print_memory_details_def print_lu_def decimal.simps digit_char_def)

text \<open>
  C5, as the code has it. The parser returns false only at a line whose device
  identity is not the device's, or at the end of a record without a client id. When
  it returns false, the device with its two cache generations is as before the call.
  The process record is not: the values of the memory lines read before the failure
  have been added, times 1024, to the memory usage (which is valid once one was read),
  and at the end of a record without a client id the cycles field has been set, valid,
  to the sum of the five busy-cycle counters read; at a foreign line the cycles field
  is as before. The pid, the type, the three utilisation fields and every other flag
  are unchanged.
\<close>

theorem failure_leaves_caches:
  assumes "parse_drm_fdinfo_intel_xe D NDEBUG c g f p = Inr (False, g', p')"
  shows "g' = g \<and>
         (((\<exists>x\<in>set f. mismatch D (pdev g) x) \<and>
           p' = fold add_memory (scanned_memory_values D (pdev g) f) p \<and>
           gpu_cycles p' = gpu_cycles p \<and>
           (gpuinfo_process_gpu_cycles_valid \<in> valid p') =
             (gpuinfo_process_gpu_cycles_valid \<in> valid p)) \<or>
          (\<exists>l q. parse_lines D (pdev g) f initial_locals p = Inr (l, q) \<and> \<not> client_id_set l \<and>
             p' = set_gpu_cycles (cycles_sum (l_gpu_cycles l))
                    (fold add_memory (scanned_memory_values D (pdev g) f) p) \<and>
             gpu_cycles p' =
               rcs (l_gpu_cycles l) + vcs (l_gpu_cycles l) + vecs (l_gpu_cycles l) +
               bcs (l_gpu_cycles l) + ccs (l_gpu_cycles l) \<and>
             gpuinfo_process_gpu_cycles_valid \<in> valid p')) \<and>
         (scanned_memory_values D (pdev g) f = [] \<longrightarrow>
            gpu_memory_usage p' = gpu_memory_usage p \<and>
            (gpuinfo_process_gpu_memory_usage_valid \<in> valid p') =
              (gpuinfo_process_gpu_memory_usage_valid \<in> valid p)) \<and>
         (scanned_memory_values D (pdev g) f \<noteq> [] \<longrightarrow>
            gpuinfo_process_gpu_memory_usage_valid \<in> valid p' \<and>
            gpu_memory_usage p' =
              (if gpuinfo_process_gpu_memory_usage_valid \<in> valid p
               then gpu_memory_usage p else 0)
              + sum_list (map (\<lambda>val. fst (strtoul val) * 1024)
                            (scanned_memory_values D (pdev g) f))) \<and>
         pid p' = pid p \<and> type p' = type p \<and> gpu_usage p' = gpu_usage p \<and>
         decode_usage p' = decode_usage p \<and> encode_usage p' = encode_usage p \<and>
         valid p \<subseteq> valid p' \<and>
         valid p' \<subseteq> valid p \<union> {gpuinfo_process_gpu_memory_usage_valid,
                                  gpuinfo_process_gpu_cycles_valid}"
proof (cases "parse_lines D (pdev g) f initial_locals p")
  case (Inl q)
  have q: "q = fold add_memory (scanned_memory_values D (pdev g) f) p"
    using parse_lines_scanned_values [of D "pdev g" f initial_locals p] Inl
    by (simp add: out_process_def)
  have foreign: "\<exists>x\<in>set f. mismatch D (pdev g) x"
    using parse_lines_Inl [of D "pdev g" f initial_locals p] Inl by simp
  have "g' = g \<and> p' = q"
    using assms by (simp add: parse_mismatch [OF Inl])
  then have g: "g' = g"
    and p': "p' = fold add_memory (scanned_memory_values D (pdev g) f) p"
    using q by simp_all
  have way: "(\<exists>x\<in>set f. mismatch D (pdev g) x) \<and>
           p' = fold add_memory (scanned_memory_values D (pdev g) f) p \<and>
           gpu_cycles p' = gpu_cycles p \<and>
           (gpuinfo_process_gpu_cycles_valid \<in> valid p') =
             (gpuinfo_process_gpu_cycles_valid \<in> valid p)"
    using foreign by (simp add: p' fold_add_memory)
  have rest: "(scanned_memory_values D (pdev g) f = [] \<longrightarrow>
            gpu_memory_usage p' = gpu_memory_usage p \<and>
            (gpuinfo_process_gpu_memory_usage_valid \<in> valid p') =
              (gpuinfo_process_gpu_memory_usage_valid \<in> valid p)) \<and>
         (scanned_memory_values D (pdev g) f \<noteq> [] \<longrightarrow>
            gpuinfo_process_gpu_memory_usage_valid \<in> valid p' \<and>
            gpu_memory_usage p' =
              (if gpuinfo_process_gpu_memory_usage_valid \<in> valid p
               then gpu_memory_usage p else 0)
              + sum_list (map (\<lambda>val. fst (strtoul val) * 1024)
                            (scanned_memory_values D (pdev g) f))) \<and>
         pid p' = pid p \<and> type p' = type p \<and> gpu_usage p' = gpu_usage p \<and>
         decode_usage p' = decode_usage p \<and> encode_usage p' = encode_usage p \<and>
         valid p \<subseteq> valid p' \<and>
         valid p' \<subseteq> valid p \<union> {gpuinfo_process_gpu_memory_usage_valid,
                                  gpuinfo_process_gpu_cycles_valid}"
    by (auto simp: p' fold_add_memory)
  show ?thesis
    using g way rest by blast
next
  case (Inr r)
  obtain l q where r: "r = (l, q)"
    by (cases r)
  have scan: "parse_lines D (pdev g) f initial_locals p = Inr (l, q)"
    using Inr r by simp
  have q: "q = fold add_memory (scanned_memory_values D (pdev g) f) p"
    using parse_lines_scanned_values [of D "pdev g" f initial_locals p] scan
    by (simp add: out_process_def)
  have nocid: "\<not> client_id_set l"
  proof
    assume cid: "client_id_set l"
    show False
    proof (cases "HASH_FIND_CLIENT (last_update_process_cache g) (record_key g l p)")
      case None
      then show False
        using assms
        by (auto simp: parse_miss [OF scan cid None] and_then_def split: if_splits sum.splits)
    next
      case (Some e)
      then show False
        using assms
        by (auto simp: parse_hit [OF scan cid Some] and_then_def usage_from_cache_eq
            split: sum.splits)
    qed
  qed
  have "g' = g \<and> p' = set_gpu_cycles (cycles_sum (l_gpu_cycles l)) q"
    using assms by (simp add: parse_no_client_id [OF scan nocid])
  then have g: "g' = g"
    and p': "p' = set_gpu_cycles (cycles_sum (l_gpu_cycles l))
                    (fold add_memory (scanned_memory_values D (pdev g) f) p)"
    using q by simp_all
  have way: "\<exists>l q. parse_lines D (pdev g) f initial_locals p = Inr (l, q) \<and> \<not> client_id_set l \<and>
             p' = set_gpu_cycles (cycles_sum (l_gpu_cycles l))
                    (fold add_memory (scanned_memory_values D (pdev g) f) p) \<and>
             gpu_cycles p' =
               rcs (l_gpu_cycles l) + vcs (l_gpu_cycles l) + vecs (l_gpu_cycles l) +
               bcs (l_gpu_cycles l) + ccs (l_gpu_cycles l) \<and>
             gpuinfo_process_gpu_cycles_valid \<in> valid p'"
    using scan nocid p' by (auto simp: set_gpu_cycles_def cycles_sum_eq)
  have rest: "(scanned_memory_values D (pdev g) f = [] \<longrightarrow>
            gpu_memory_usage p' = gpu_memory_usage p \<and>
            (gpuinfo_process_gpu_memory_usage_valid \<in> valid p') =
              (gpuinfo_process_gpu_memory_usage_valid \<in> valid p)) \<and>
         (scanned_memory_values D (pdev g) f \<noteq> [] \<longrightarrow>
            gpuinfo_process_gpu_memory_usage_valid \<in> valid p' \<and>
            gpu_memory_usage p' =
              (if gpuinfo_process_gpu_memory_usage_valid \<in> valid p
               then gpu_memory_usage p else 0)
              + sum_list (map (\<lambda>val. fst (strtoul val) * 1024)
                            (scanned_memory_values D (pdev g) f))) \<and>
         pid p' = pid p \<and> type p' = type p \<and> gpu_usage p' = gpu_usage p \<and>
         decode_usage p' = decode_usage p \<and> encode_usage p' = encode_usage p \<and>
         valid p \<subseteq> valid p' \<and>
         valid p' \<subseteq> valid p \<union> {gpuinfo_process_gpu_memory_usage_valid,
                                  gpuinfo_process_gpu_cycles_valid}"
    by (auto simp: p' fold_add_memory set_gpu_cycles_def)
  show ?thesis
    using g way rest by blast
qed

theorem failure_leaves_caches_witness:
  "parse_drm_fdinfo_intel_xe key_value_decls False True device_cycle_2
     [''drm-pdev=0000:03:00.0'', ''drm-total-vram0=4'', ''drm-cycles-rcs=7'',
      ''drm-cycles-vcs=3''] fresh_process =
     Inr (False, device_cycle_2,
          fresh_process\<lparr>gpu_cycles := 10, gpu_memory_usage := 4096,
            valid := {gpuinfo_process_gpu_cycles_valid,
                      gpuinfo_process_gpu_memory_usage_valid}\<rparr>) \<and>
   scanned_memory_values key_value_decls (pdev device_cycle_2)
     [''drm-pdev=0000:03:00.0'', ''drm-total-vram0=4'', ''drm-cycles-rcs=7'',
      ''drm-cycles-vcs=3''] = [''4''] \<and>
   fst (strtoul ''4'') * 1024 = 4096 \<and>
   parse_lines key_value_decls (pdev device_cycle_2)
     [''drm-pdev=0000:03:00.0'', ''drm-total-vram0=4'', ''drm-cycles-rcs=7'',
      ''drm-cycles-vcs=3''] initial_locals fresh_process =
     Inr (initial_locals\<lparr>l_gpu_cycles := \<lparr>rcs = 7, vcs = 3, vecs = 0, bcs = 0, ccs = 0\<rparr>\<rparr>,
          scanned_process) \<and>
   gpu_cycles (fresh_process\<lparr>gpu_cycles := 10, gpu_memory_usage := 4096,
                 valid := {gpuinfo_process_gpu_cycles_valid,
                           gpuinfo_process_gpu_memory_usage_valid}\<rparr>) = 7 + 3 + 0 + 0 + 0 \<and>
   gpu_memory_usage (fresh_process\<lparr>gpu_cycles := 10, gpu_memory_usage := 4096,
                 valid := {gpuinfo_process_gpu_cycles_valid,
                           gpuinfo_process_gpu_memory_usage_valid}\<rparr>) = 0 + 4096 \<and>
   pid (fresh_process\<lparr>gpu_cycles := 10, gpu_memory_usage := 4096,
                 valid := {gpuinfo_process_gpu_cycles_valid,
                           gpuinfo_process_gpu_memory_usage_valid}\<rparr>) = pid fresh_process \<and>
   parse_drm_fdinfo_intel_xe key_value_decls False True device_cycle_2
     [''drm-cycles-rcs=7'', ''drm-pdev=0000:04:00.0'', ''drm-total-vram0=4'']
     fresh_process = Inr (False, device_cycle_2, fresh_process) \<and>
   mismatch key_value_decls (pdev device_cycle_2) ''drm-pdev=0000:04:00.0'' \<and>
   scanned_memory_values key_value_decls (pdev device_cycle_2)
     [''drm-cycles-rcs=7'', ''drm-pdev=0000:04:00.0'', ''drm-total-vram0=4''] = []"
proof -
  have run: "parse_drm_fdinfo_intel_xe key_value_decls False True device_cycle_2
     [''drm-pdev=0000:03:00.0'', ''drm-total-vram0=4'', ''drm-cycles-rcs=7'',
      ''drm-cycles-vcs=3''] fresh_process =
     Inr (False, device_cycle_2,
          fresh_process\<lparr>gpu_cycles := 10, gpu_memory_usage := 4096,
            valid := {gpuinfo_process_gpu_cycles_valid,
                      gpuinfo_process_gpu_memory_usage_valid}\<rparr>)"
    by (simp add: parse_drm_fdinfo_intel_xe_def device_cycle_2_def fresh_process_def eval_defs
        set_gpu_cycles_def cycles_sum_eq)
  have vals: "scanned_memory_values key_value_decls (pdev device_cycle_2)
     [''drm-pdev=0000:03:00.0'', ''drm-total-vram0=4'', ''drm-cycles-rcs=7'',
      ''drm-cycles-vcs=3''] = [''4'']"
    by (simp add: scanned_memory_values_def scanned_lines_def mismatch_def device_cycle_2_def
        eval_defs)
  have four: "fst (strtoul ''4'') * 1024 = 4096"
    by (simp add: eval_defs)
  have scan: "parse_lines key_value_decls (pdev device_cycle_2)
     [''drm-pdev=0000:03:00.0'', ''drm-total-vram0=4'', ''drm-cycles-rcs=7'',
      ''drm-cycles-vcs=3''] initial_locals fresh_process =
     Inr (initial_locals\<lparr>l_gpu_cycles := \<lparr>rcs = 7, vcs = 3, vecs = 0, bcs = 0, ccs = 0\<rparr>\<rparr>,
          scanned_process)"
    by (simp add: device_cycle_2_def fresh_process_def scanned_process_def eval_defs)
  have foreign: "parse_drm_fdinfo_intel_xe key_value_decls False True device_cycle_2
     [''drm-cycles-rcs=7'', ''drm-pdev=0000:04:00.0'', ''drm-total-vram0=4'']
     fresh_process = Inr (False, device_cycle_2, fresh_process)"
    by (simp add: parse_drm_fdinfo_intel_xe_def device_cycle_2_def fresh_process_def eval_defs)
  have other: "mismatch key_value_decls (pdev device_cycle_2) ''drm-pdev=0000:04:00.0''"
    by (simp add: mismatch_def device_cycle_2_def eval_defs)
  have unread: "scanned_memory_values key_value_decls (pdev device_cycle_2)
     [''drm-cycles-rcs=7'', ''drm-pdev=0000:04:00.0'', ''drm-total-vram0=4''] = []"
    by (simp add: scanned_memory_values_def scanned_lines_def mismatch_def device_cycle_2_def
        eval_defs)
  note facts = failure_leaves_caches [OF run]
  have same_pid: "pid (fresh_process\<lparr>gpu_cycles := 10, gpu_memory_usage := 4096,
                 valid := {gpuinfo_process_gpu_cycles_valid,
                           gpuinfo_process_gpu_memory_usage_valid}\<rparr>) = pid fresh_process"
    using facts by blast
  show ?thesis
    using run vals four scan same_pid foreign other unread by simp
qed

text \<open>
  C5 as stated fails: a record with a memory line and a cycles line and no client id
  is rejected, and the process record the caller gave is not what it was.
\<close>

theorem failure_changes_process_record:
  "parse_drm_fdinfo_intel_xe key_value_decls False True device_empty
     [''drm-pdev=0000:03:00.0'', ''drm-total-vram0=4'', ''drm-cycles-rcs=7''] fresh_process =
     Inr (False, device_empty,
          fresh_process\<lparr>gpu_cycles := 7, gpu_memory_usage := 4096,
            valid := {gpuinfo_process_gpu_cycles_valid,
                      gpuinfo_process_gpu_memory_usage_valid}\<rparr>) \<and>
   fresh_process\<lparr>gpu_cycles := 7, gpu_memory_usage := 4096,
     valid := {gpuinfo_process_gpu_cycles_valid, gpuinfo_process_gpu_memory_usage_valid}\<rparr>
     \<noteq> fresh_process"
  by (simp add: parse_drm_fdinfo_intel_xe_def device_empty_def fresh_process_def eval_defs
      set_gpu_cycles_def cycles_sum_eq)

text \<open>
  C6. The export writes, between \<^verbatim>\<open>[\<close> and \<^verbatim>\<open>]\<close>, the object of every device in
  turn, a comma and a newline before each but the first. The object of a device has
  the line \<^verbatim>\<open>"gpu_util": "<N>%"\<close>, where \<open>N\<close> is the sum of \<^verbatim>\<open>gpu_usage\<close> over the
  processes of the device whose field is valid, clamped to 100; without processes it
  is \<^verbatim>\<open>"0%"\<close>. So the output of the export has that line for every device. The sum is
  that of the code's \<^verbatim>\<open>unsigned\<close>; as long as the sum of the numbers stays below
  \<open>2 ^ 32\<close> it is the sum of the numbers.
\<close>

theorem gpu_util_sum_clamped:
  \<open>(\<exists>before after.
      print_device device =
        before @ print_gpu_util (total_usage (processes device)) @ after) \<and>
   print_gpu_util (total_usage ps) =
     ''   "gpu_util": "'' @
     decimal (unat (min 100 (sum_list (map gpu_usage
        (filter (\<lambda>p. gpuinfo_process_gpu_usage_valid \<in> valid p) ps))))) @
     ''%",\<newline>'' \<and>
   print_gpu_util (total_usage []) = ''   "gpu_util": "0%",\<newline>'' \<and>
   (sum_list (map (\<lambda>p. unat (gpu_usage p))
       (filter (\<lambda>p. gpuinfo_process_gpu_usage_valid \<in> valid p) ps)) < 2 ^ 32 \<longrightarrow>
    unat (total_usage ps) =
      min 100 (sum_list (map (\<lambda>p. unat (gpu_usage p))
                 (filter (\<lambda>p. gpuinfo_process_gpu_usage_valid \<in> valid p) ps)))) \<and>
   Printf (print_snapshot monitoredGpus) \<in> set (show_snapshot monitoredGpus) \<and>
   print_snapshot [] = ''[\<newline>\<newline>]\<newline>'' \<and>
   print_snapshot (first_device # others) =
     ''[\<newline>'' @ print_device first_device @
     concat (map (\<lambda>x. '',\<newline>'' @ print_device x) others) @ ''\<newline>]\<newline>'' \<and>
   (device \<in> set monitoredGpus \<longrightarrow>
      (\<exists>before after.
         print_snapshot monitoredGpus = before @ print_device device @ after) \<and>
      (\<exists>before after.
         print_snapshot monitoredGpus =
           before @
           ''   "gpu_util": "'' @
           decimal (unat (min 100 (sum_list (map gpu_usage
              (filter (\<lambda>p. gpuinfo_process_gpu_usage_valid \<in> valid p)
                 (processes device)))))) @
           ''%",\<newline>'' @ after)) \<and>
   (processes device = [] \<longrightarrow>
      (\<exists>before after.
         print_snapshot [device] = before @ ''   "gpu_util": "0%",\<newline>'' @ after))\<close>
proof -
  let ?valid = "filter (\<lambda>p. gpuinfo_process_gpu_usage_valid \<in> valid p) ps"
  have shape: \<open>print_device x =
            (''  {\<newline>'' @ ''   "device_name": "'' @ device_name x @ ''",\<newline>'' @
             print_gpu_clock (dynamic_info x) @ print_temp (dynamic_info x) @
             print_fan_speed (dynamic_info x) @ print_power_draw (dynamic_info x)) @
            print_gpu_util (total_usage (processes x)) @
            (print_mem_util (dynamic_info x) @ print_memory_details (dynamic_info x) @
             ''  }'')\<close> for x
    by (simp add: print_device_def)
  have part: "\<exists>before after.
      print_device device =
        before @ print_gpu_util (total_usage (processes device)) @ after"
    using shape [of device] by (intro exI)
  have line: \<open>print_gpu_util (total_usage qs) =
     ''   "gpu_util": "'' @
     decimal (unat (min 100 (sum_list (map gpu_usage
        (filter (\<lambda>p. gpuinfo_process_gpu_usage_valid \<in> valid p) qs))))) @
     ''%",\<newline>''\<close> for qs
    by (simp add: print_gpu_util_def print_u_def total_usage_min)
  have none: \<open>print_gpu_util (total_usage []) = ''   "gpu_util": "0%",\<newline>''\<close>
    by (simp add: print_gpu_util_def print_u_def total_usage_def decimal.simps digit_char_def)
  have nat: "unat (total_usage ps) = min 100 (sum_list (map (\<lambda>p. unat (gpu_usage p)) ?valid))"
    if small: "sum_list (map (\<lambda>p. unat (gpu_usage p)) ?valid) < 2 ^ 32"
  proof -
    have "sum_list (map unat (map gpu_usage ?valid)) < 2 ^ 32"
      using small by (simp add: comp_def)
    then have "unat (sum_list (map gpu_usage ?valid)) = sum_list (map unat (map gpu_usage ?valid))"
      by (rule unat_sum_list)
    then have s: "unat (sum_list (map gpu_usage ?valid))
                    = sum_list (map (\<lambda>p. unat (gpu_usage p)) ?valid)"
      by (simp add: comp_def)
    have "unat (min 100 (sum_list (map gpu_usage ?valid)))
            = min 100 (unat (sum_list (map gpu_usage ?valid)))"
      by (simp add: min_def word_le_nat_alt)
    then show ?thesis
      by (simp add: total_usage_min s)
  qed
  have printed: "Printf (print_snapshot monitoredGpus) \<in> set (show_snapshot monitoredGpus)"
    by (simp add: show_snapshot_def)
  have empty: \<open>print_snapshot [] = ''[\<newline>\<newline>]\<newline>''\<close>
    by (simp add: print_snapshot_def)
  have several: \<open>print_snapshot (x # xs) =
     ''[\<newline>'' @ print_device x @
     concat (map (\<lambda>x. '',\<newline>'' @ print_device x) xs) @ ''\<newline>]\<newline>''\<close> for x xs
    by (simp add: print_snapshot_def print_devices_rest)
  have object: \<open>\<exists>before after.
         print_snapshot monitoredGpus = before @ print_device device @ after\<close>
    if member: "device \<in> set monitoredGpus"
  proof -
    obtain before after
      where "print_devices True monitoredGpus = before @ print_device device @ after"
      using print_devices_member [OF member, of True] by blast
    then have \<open>print_snapshot monitoredGpus =
                 (''[\<newline>'' @ before) @ print_device device @ (after @ ''\<newline>]\<newline>'')\<close>
      by (simp add: print_snapshot_def)
    then show ?thesis
      by (intro exI)
  qed
  have field: \<open>\<exists>before after.
         print_snapshot monitoredGpus =
           before @
           ''   "gpu_util": "'' @
           decimal (unat (min 100 (sum_list (map gpu_usage
              (filter (\<lambda>p. gpuinfo_process_gpu_usage_valid \<in> valid p)
                 (processes device)))))) @
           ''%",\<newline>'' @ after\<close>
    if member: "device \<in> set monitoredGpus"
  proof -
    obtain b1 a1 where outer: "print_snapshot monitoredGpus = b1 @ print_device device @ a1"
      using object [OF member] by blast
    obtain b2 a2
      where inner: "print_device device =
                      b2 @ print_gpu_util (total_usage (processes device)) @ a2"
      using part by blast
    have \<open>print_snapshot monitoredGpus =
            (b1 @ b2) @
            ''   "gpu_util": "'' @
            decimal (unat (min 100 (sum_list (map gpu_usage
              (filter (\<lambda>p. gpuinfo_process_gpu_usage_valid \<in> valid p)
                 (processes device)))))) @
            ''%",\<newline>'' @ (a2 @ a1)\<close>
      unfolding outer inner line [of "processes device"] by simp
    then show ?thesis
      by (intro exI)
  qed
  have idle: \<open>\<exists>before after.
         print_snapshot [device] = before @ ''   "gpu_util": "0%",\<newline>'' @ after\<close>
    if idle: "processes device = []"
  proof -
    have \<open>print_snapshot [device] =
            (''[\<newline>'' @ ''  {\<newline>'' @ ''   "device_name": "'' @ device_name device @
             ''",\<newline>'' @
             print_gpu_clock (dynamic_info device) @ print_temp (dynamic_info device) @
             print_fan_speed (dynamic_info device) @ print_power_draw (dynamic_info device)) @
            ''   "gpu_util": "0%",\<newline>'' @
            (print_mem_util (dynamic_info device) @ print_memory_details (dynamic_info device) @
             ''  }'' @ ''\<newline>]\<newline>'')\<close>
      by (simp add: several shape idle none)
    then show ?thesis
      by (intro exI)
  qed
  show ?thesis
    by (intro conjI impI part line none nat printed empty several object field idle)
qed

theorem gpu_util_sum_clamped_witness:
  \<open>sum_list (map (\<lambda>p. unat (gpu_usage p))
      (filter (\<lambda>p. gpuinfo_process_gpu_usage_valid \<in> valid p) three_processes)) < 2 ^ 32 \<and>
   sum_list (map (\<lambda>p. unat (gpu_usage p))
      (filter (\<lambda>p. gpuinfo_process_gpu_usage_valid \<in> valid p) three_processes)) = 115 \<and>
   unat (total_usage three_processes) = 100 \<and>
   print_gpu_util (total_usage three_processes) = ''   "gpu_util": "100%",\<newline>'' \<and>
   busy_device \<in> set [idle_device, busy_device] \<and>
   processes idle_device = [] \<and>
   print_snapshot [idle_device] =
     ''[\<newline>'' @
     ''  {\<newline>'' @
     ''   "device_name": "Intel Arc A380",\<newline>'' @
     ''   "gpu_clock": null,\<newline>'' @
     ''   "temp": null,\<newline>'' @
     ''   "fan_speed": null,\<newline>'' @
     ''   "power_draw": null,\<newline>'' @
     ''   "gpu_util": "0%",\<newline>'' @
     ''   "mem_util": null,\<newline>'' @
     ''   "mem_total": null\<newline>'' @
     ''  }'' @
     ''\<newline>]\<newline>'' \<and>
   print_snapshot [idle_device, busy_device] =
     ''[\<newline>'' @
     ''  {\<newline>'' @
     ''   "device_name": "Intel Arc A380",\<newline>'' @
     ''   "gpu_clock": null,\<newline>'' @
     ''   "temp": null,\<newline>'' @
     ''   "fan_speed": null,\<newline>'' @
     ''   "power_draw": null,\<newline>'' @
     ''   "gpu_util": "0%",\<newline>'' @
     ''   "mem_util": null,\<newline>'' @
     ''   "mem_total": null\<newline>'' @
     ''  }'' @
     '',\<newline>'' @
     ''  {\<newline>'' @
     ''   "device_name": "Intel Arc A770",\<newline>'' @
     ''   "gpu_clock": null,\<newline>'' @
     ''   "temp": null,\<newline>'' @
     ''   "fan_speed": null,\<newline>'' @
     ''   "power_draw": null,\<newline>'' @
     ''   "gpu_util": "100%",\<newline>'' @
     ''   "mem_util": null,\<newline>'' @
     ''   "mem_total": null\<newline>'' @
     ''  }'' @
     ''\<newline>]\<newline>''\<close>
proof -
  note inst = gpu_util_sum_clamped [of busy_device three_processes "[idle_device, busy_device]"
      idle_device "[busy_device]"]
  have s: "sum_list (map (\<lambda>p. unat (gpu_usage p))
      (filter (\<lambda>p. gpuinfo_process_gpu_usage_valid \<in> valid p) three_processes)) = 115"
    by (simp add: three_processes_def fresh_process_def)
  then have small: "sum_list (map (\<lambda>p. unat (gpu_usage p))
      (filter (\<lambda>p. gpuinfo_process_gpu_usage_valid \<in> valid p) three_processes)) < 2 ^ 32"
    by simp
  have t: "unat (total_usage three_processes) = 100"
    using inst [THEN conjunct2, THEN conjunct2, THEN conjunct2, THEN conjunct1, rule_format,
        OF small]
    by (simp add: s)
  then have full: "total_usage three_processes = 100"
    by (simp add: word_unat_eq_iff)
  have none: "total_usage [] = 0"
    by (simp add: total_usage_def)
  have line: \<open>print_gpu_util (total_usage three_processes) = ''   "gpu_util": "100%",\<newline>''\<close>
    by (simp add: full print_gpu_util_def print_u_def decimal.simps digit_char_def)
  have member: "busy_device \<in> set [idle_device, busy_device]"
    by simp
  have idle: "processes idle_device = []"
    by (simp add: idle_device_def)
  have one: \<open>print_snapshot [idle_device] =
     ''[\<newline>'' @
     ''  {\<newline>'' @
     ''   "device_name": "Intel Arc A380",\<newline>'' @
     ''   "gpu_clock": null,\<newline>'' @
     ''   "temp": null,\<newline>'' @
     ''   "fan_speed": null,\<newline>'' @
     ''   "power_draw": null,\<newline>'' @
     ''   "gpu_util": "0%",\<newline>'' @
     ''   "mem_util": null,\<newline>'' @
     ''   "mem_total": null\<newline>'' @
     ''  }'' @
     ''\<newline>]\<newline>''\<close>
    by (simp add: print_snapshot_def print_device_def idle_device_def no_dynamic_info_def none
        print_gpu_clock_def print_temp_def print_fan_speed_def print_power_draw_def
        print_gpu_util_def print_mem_util_def print_memory_details_def print_u_def
        decimal.simps digit_char_def)
  have two: \<open>print_snapshot [idle_device, busy_device] =
     ''[\<newline>'' @
     ''  {\<newline>'' @
     ''   "device_name": "Intel Arc A380",\<newline>'' @
     ''   "gpu_clock": null,\<newline>'' @
     ''   "temp": null,\<newline>'' @
     ''   "fan_speed": null,\<newline>'' @
     ''   "power_draw": null,\<newline>'' @
     ''   "gpu_util": "0%",\<newline>'' @
     ''   "mem_util": null,\<newline>'' @
     ''   "mem_total": null\<newline>'' @
     ''  }'' @
     '',\<newline>'' @
     ''  {\<newline>'' @
     ''   "device_name": "Intel Arc A770",\<newline>'' @
     ''   "gpu_clock": null,\<newline>'' @
     ''   "temp": null,\<newline>'' @
     ''   "fan_speed": null,\<newline>'' @
     ''   "power_draw": null,\<newline>'' @
     ''   "gpu_util": "100%",\<newline>'' @
     ''   "mem_util": null,\<newline>'' @
     ''   "mem_total": null\<newline>'' @
     ''  }'' @
     ''\<newline>]\<newline>''\<close>
    by (simp add: print_snapshot_def print_device_def idle_device_def busy_device_def
        no_dynamic_info_def none full
        print_gpu_clock_def print_temp_def print_fan_speed_def print_power_draw_def
        print_gpu_util_def print_mem_util_def print_memory_details_def print_u_def
        decimal.simps digit_char_def)
  show ?thesis
    by (intro conjI small s t line member idle one two)
qed

text \<open>
  C7. The snapshot makes exactly three sampling passes, each a refresh of the dynamic
  information directly followed by a refresh of the processes: the warm-up pass, a
  pause of 250000 microseconds, the second pass, the wait of 1000000 microseconds, the
  third pass. The rates are computed once, directly after the third pass, and the
  printing comes after that.
\<close>

theorem snapshot_three_passes:
  "positions Gpuinfo_refresh_dynamic_info (show_snapshot monitoredGpus) = [0, 3, 6] \<and>
   positions Gpuinfo_refresh_processes (show_snapshot monitoredGpus) = [1, 4, 7] \<and>
   positions (Usleep 250000) (show_snapshot monitoredGpus) = [2] \<and>
   positions (Usleep 1000000) (show_snapshot monitoredGpus) = [5] \<and>
   positions Gpuinfo_utilisation_rate (show_snapshot monitoredGpus) = [8] \<and>
   positions (Printf (print_snapshot monitoredGpus)) (show_snapshot monitoredGpus) = [9] \<and>
   length (show_snapshot monitoredGpus) = 11"
  by (simp add: positions_def show_snapshot_def upt_rec)




text \<open>
  C9. An iteration of the main loop samples exactly when the slept time has reached
  the update interval; it then sets the input timeout to the interval and starts the
  slept time again from 0. Otherwise it makes no sampling call and only sets the input
  timeout to the interval less the (truncated) slept time. So between an iteration
  that samples and the next one that does, the times the loop slept in between,
  added up from 0 as the loop adds them, have reached the interval that holds at the
  later one.
\<close>

theorem sampling_paced:
  "(samples (fst (loop_body dadd it t)) = (real_of_int (update_interval it) \<le> t)) \<and>
   (real_of_int (update_interval it) \<le> t \<longrightarrow>
      snd (loop_body dadd it t) = dadd 0 (slept it) \<and>
      Timeout (update_interval it) \<in> set (fst (loop_body dadd it t))) \<and>
   (t < real_of_int (update_interval it) \<longrightarrow>
      snd (loop_body dadd it t) = dadd t (slept it) \<and>
      Timeout (update_interval it - int_of_double t) \<in> set (fst (loop_body dadd it t)) \<and>
      Gpuinfo_refresh_dynamic_info \<notin> set (fst (loop_body dadd it t)) \<and>
      Gpuinfo_refresh_processes \<notin> set (fst (loop_body dadd it t)) \<and>
      Gpuinfo_utilisation_rate \<notin> set (fst (loop_body dadd it t))) \<and>
   (samples (hd (main_loop dadd (first # between @ [later]) t0)) \<and>
    (\<forall>c\<in>set (butlast (tl (main_loop dadd (first # between @ [later]) t0))). \<not> samples c) \<and>
    samples (last (main_loop dadd (first # between @ [later]) t0)) \<longrightarrow>
      real_of_int (update_interval later)
        \<le> fold (\<lambda>i t. dadd t (slept i)) between (dadd 0 (slept first)))"
proof -
  have run: "real_of_int (update_interval later)
               \<le> fold (\<lambda>i t. dadd t (slept i)) between (dadd 0 (slept first))"
    if first: "samples (hd (main_loop dadd (first # between @ [later]) t0))"
      and wait: "\<forall>c\<in>set (butlast (tl (main_loop dadd (first # between @ [later]) t0))).
                   \<not> samples c"
      and later: "samples (last (main_loop dadd (first # between @ [later]) t0))"
  proof -
    let ?t = "snd (loop_body dadd first t0)"
    have ne: "main_loop dadd (between @ [later]) ?t \<noteq> []"
      by (rule main_loop_not_Nil)
    have "real_of_int (update_interval first) \<le> t0"
      using first by (simp add: samples_loop_body)
    then have t: "?t = dadd 0 (slept first)"
      using loop_body_sampling by blast
    have w: "\<forall>c\<in>set (butlast (main_loop dadd (between @ [later]) ?t)). \<not> samples c"
      using wait by simp
    have "last (main_loop dadd (first # between @ [later]) t0)
            = last (main_loop dadd (between @ [later]) ?t)"
      using ne by simp
    also have "\<dots> = fst (loop_body dadd later (fold (\<lambda>i t. dadd t (slept i)) between ?t))"
      by (rule main_loop_waiting [OF w])
    finally show ?thesis
      using later by (simp add: samples_loop_body t)
  qed
  show ?thesis
    using samples_loop_body [of dadd it t] loop_body_sampling [of it t dadd]
      loop_body_waiting [of t it dadd] run
    by blast
qed

theorem sampling_paced_witness:
  "real_of_int (update_interval (iteration_of 600)) \<le> 1000 \<and>
   samples (fst (loop_body (+) (iteration_of 600) 1000)) \<and>
   snd (loop_body (+) (iteration_of 600) 1000) = 600 \<and>
   (600 :: real) < real_of_int (update_interval (iteration_of 500)) \<and>
   \<not> samples (fst (loop_body (+) (iteration_of 500) 600)) \<and>
   snd (loop_body (+) (iteration_of 500) 600) = 1100 \<and>
   Timeout 400 \<in> set (fst (loop_body (+) (iteration_of 500) 600)) \<and>
   samples (hd (main_loop (+) (iteration_of 600 # [iteration_of 200, iteration_of 300]
                                @ [iteration_of 50]) 1000)) \<and>
   \<not> samples (main_loop (+) (iteration_of 600 # [iteration_of 200, iteration_of 300]
                               @ [iteration_of 50]) 1000 ! 1) \<and>
   \<not> samples (main_loop (+) (iteration_of 600 # [iteration_of 200, iteration_of 300]
                               @ [iteration_of 50]) 1000 ! 2) \<and>
   samples (last (main_loop (+) (iteration_of 600 # [iteration_of 200, iteration_of 300]
                                  @ [iteration_of 50]) 1000)) \<and>
   real_of_int (update_interval (iteration_of 50))
     \<le> fold (\<lambda>i t. t + slept i) [iteration_of 200, iteration_of 300]
          (0 + slept (iteration_of 600))"
  using sampling_paced [of "(+)" "iteration_of 600" 1000 "iteration_of 600"
      "[iteration_of 200, iteration_of 300]" "iteration_of 50" 1000]
    sampling_paced [of "(+)" "iteration_of 500" 600 "iteration_of 600"
      "[iteration_of 200, iteration_of 300]" "iteration_of 50" 1000]
  by (simp add: iteration_of_def loop_body_def samples_def int_of_double_def)

text \<open>
  C10. For a record whose key is found in the previous generation, the overall, decode
  and encode utilisation are valid when the call returns, and they are 0 when the
  \<open>total_delta\<close> of every engine is 0: the three fields are set to a valid 0 before
  any engine is added, so that the branch gives what it gives for a record in which
  they are a valid 0 already. The call returns unless the debug build's assertion
  stops it.
\<close>

theorem usage_fields_populated:
  assumes scan: "parse_lines D (pdev g) f initial_locals p = Inr (l, q)"
      and cid: "client_id_set l"
      and hit: "HASH_FIND_CLIENT (last_update_process_cache g) (record_key g l p) = Some e"
      and fresh: "NDEBUG \<or> HASH_FIND_CLIENT (current_update_process_cache g) (client_id e) = None"
  shows "\<exists>g' p'. parse_drm_fdinfo_intel_xe D NDEBUG c g f p = Inr (True, g', p') \<and>
           gpuinfo_process_gpu_usage_valid \<in> valid p' \<and>
           gpuinfo_process_decode_usage_valid \<in> valid p' \<and>
           gpuinfo_process_encode_usage_valid \<in> valid p' \<and>
           (total_delta rcs l e = 0 \<and> total_delta ccs l e = 0 \<and> total_delta vcs l e = 0 \<and>
            total_delta vecs l e = 0 \<and> total_delta bcs l e = 0 \<longrightarrow>
              gpu_usage p' = 0 \<and> decode_usage p' = 0 \<and> encode_usage p' = 0) \<and>
           (\<forall>r. usage_from_cache l e r =
                  usage_from_cache l e
                    (set_encode_usage 0 (set_decode_usage 0 (set_gpu_usage 0 r))))"
proof -
  have zeroed: "\<forall>r. usage_from_cache l e r =
                  usage_from_cache l e
                    (set_encode_usage 0 (set_decode_usage 0 (set_gpu_usage 0 r)))"
    by (simp add: usage_from_cache_eq set_encode_usage_def set_decode_usage_def
        set_gpu_usage_def insert_twice)
  show ?thesis
    using fresh zeroed
    by (auto simp: parse_hit [OF scan cid hit] usage_from_cache_eq and_then_def
        store_sample_def pct_def)
qed

theorem usage_fields_populated_witness:
  "parse_lines key_value_decls (pdev device_cycle_2) sample_1 initial_locals fresh_process =
     Inr (locals_1, scanned_process) \<and>
   client_id_set locals_1 \<and>
   HASH_FIND_CLIENT (last_update_process_cache device_cycle_2)
     (record_key device_cycle_2 locals_1 fresh_process) = Some entry_1 \<and>
   HASH_FIND_CLIENT (current_update_process_cache device_cycle_2) (client_id entry_1) = None \<and>
   total_delta rcs locals_1 entry_1 = 0 \<and> total_delta ccs locals_1 entry_1 = 0 \<and>
   total_delta vcs locals_1 entry_1 = 0 \<and> total_delta vecs locals_1 entry_1 = 0 \<and>
   total_delta bcs locals_1 entry_1 = 0 \<and>
   (\<exists>g' p'. parse_drm_fdinfo_intel_xe key_value_decls False True device_cycle_2 sample_1
               fresh_process = Inr (True, g', p') \<and>
            gpuinfo_process_gpu_usage_valid \<in> valid p' \<and>
            gpuinfo_process_decode_usage_valid \<in> valid p' \<and>
            gpuinfo_process_encode_usage_valid \<in> valid p' \<and>
            gpu_usage p' = 0 \<and> decode_usage p' = 0 \<and> encode_usage p' = 0)"
proof -
  have scan: "parse_lines key_value_decls (pdev device_cycle_2) sample_1 initial_locals
                fresh_process = Inr (locals_1, scanned_process)"
    by (simp add: device_cycle_2_def scan_sample_1)
  have cid: "client_id_set locals_1"
    by (simp add: locals_1_def)
  have hit: "HASH_FIND_CLIENT (last_update_process_cache device_cycle_2)
               (record_key device_cycle_2 locals_1 fresh_process) = Some entry_1"
    by (simp add: device_cycle_2_def record_key_def locals_1_def fresh_process_def find_entry_1)
  have fresh: "HASH_FIND_CLIENT (current_update_process_cache device_cycle_2)
                 (client_id entry_1) = None"
    by (simp add: device_cycle_2_def HASH_FIND_CLIENT_def)
  have idle: "total_delta rcs locals_1 entry_1 = 0" "total_delta ccs locals_1 entry_1 = 0"
    "total_delta vcs locals_1 entry_1 = 0" "total_delta vecs locals_1 entry_1 = 0"
    "total_delta bcs locals_1 entry_1 = 0"
    by (simp_all add: total_delta_def locals_1_def entry_1_def)
  from fresh have fresh': "False \<or> HASH_FIND_CLIENT (current_update_process_cache device_cycle_2)
                 (client_id entry_1) = None" by simp
  obtain g' p' where
    "parse_drm_fdinfo_intel_xe key_value_decls False True device_cycle_2 sample_1
       fresh_process = Inr (True, g', p')"
    "gpuinfo_process_gpu_usage_valid \<in> valid p'"
    "gpuinfo_process_decode_usage_valid \<in> valid p'"
    "gpuinfo_process_encode_usage_valid \<in> valid p'"
    "gpu_usage p' = 0" "decode_usage p' = 0" "encode_usage p' = 0"
    using usage_fields_populated [OF scan cid hit fresh', of True] idle by blast
  then show ?thesis
    using scan cid hit fresh idle by blast
qed

end
